theory Spec2Isabelle
  imports
    Complex_Main
    "HOL-Library.AList"
    "HOL-Library.Char_ord"
    "HOL-Library.List_Lexorder"
begin

section \<open>Double-precision numbers\<close>

text \<open>
  The pre-flight check of \<^verbatim>\<open>addLiquidity\<close> computes with JavaScript numbers, that is
  with IEEE 754 doubles: every operation gives the double nearest to the exact result
  (ties to the even significand), a result of magnitude \<open>2^1024 - 2^970\<close> or more is
  infinite, and \<^verbatim>\<open>NaN\<close> stands for an undefined result. \<open>DFin m e\<close> is the finite
  number \<open>m * 2^e\<close>, \<open>DInf neg\<close> an infinity. The sign of a zero is not kept: the only
  divisor that can be zero here is a quotient of two non-negative balances, which is
  never a negative zero.
\<close>

datatype double = DNaN | DInf bool | DFin int int

text \<open>The number of binary digits of a natural number.\<close>

fun bitlen :: "nat \<Rightarrow> nat" where
  "bitlen n = (if n = 0 then 0 else Suc (bitlen (n div 2)))"

declare bitlen.simps [simp del]

text \<open>The integer square root, rounded down.\<close>

fun floorSqrt :: "nat \<Rightarrow> nat" where
  "floorSqrt n =
     (if n < 2 then n
      else (let r = 2 * floorSqrt (n div 4)
            in if (r + 1) * (r + 1) \<le> n then r + 1 else r))"

declare floorSqrt.simps [simp del]

text \<open>
  The binary exponent of a positive fraction \<open>n / d\<close>: the \<open>t\<close> with
  \<open>2^t \<le> n / d < 2^(t + 1)\<close>.
\<close>

definition floorLog2 :: "nat \<Rightarrow> nat \<Rightarrow> int" where
  "floorLog2 n d =
     (let t = int (bitlen n) - int (bitlen d)
      in if (if 0 \<le> t then d * 2 ^ nat t \<le> n else d \<le> n * 2 ^ nat (- t)) then t else t - 1)"

text \<open>Whether \<open>(n / d) * 2^e\<close> is at least \<open>2^1024 - 2^970 = (2^54 - 1) * 2^970\<close>.\<close>

definition overflows :: "nat \<Rightarrow> nat \<Rightarrow> int \<Rightarrow> bool" where
  "overflows n d e =
     (if 970 \<le> e then (2 ^ 54 - 1) * d \<le> n * 2 ^ nat (e - 970)
      else (2 ^ 54 - 1) * d * 2 ^ nat (970 - e) \<le> n)"

text \<open>The integer nearest to \<open>N / D\<close>, the even one when two are equally near.\<close>

definition roundHalfEven :: "nat \<Rightarrow> nat \<Rightarrow> nat" where
  "roundHalfEven N D =
     (let q = N div D; r = N mod D
      in if 2 * r < D then q
         else if D < 2 * r then q + 1
         else if even q then q else q + 1)"

text \<open>
  The double nearest to the positive number \<open>(n / d) * 2^e\<close>. With \<open>E\<close> the binary
  exponent of the number, the spacing of the doubles around it is \<open>2^p\<close> with
  \<open>p = max E (-1022) - 52\<close>, and the result is the nearest multiple of \<open>2^p\<close>.
\<close>

definition roundPos :: "nat \<Rightarrow> nat \<Rightarrow> int \<Rightarrow> double" where
  "roundPos n d e =
     (if overflows n d e then DInf False
      else
        (let E = e + floorLog2 n d;
             p = max E (- 1022) - 52;
             s = e - p;
             N = (if 0 \<le> s then n * 2 ^ nat s else n);
             D = (if 0 \<le> s then d else d * 2 ^ nat (- s))
         in DFin (int (roundHalfEven N D)) p))"

definition dneg :: "double \<Rightarrow> double" where
  "dneg x = (case x of DNaN \<Rightarrow> DNaN | DInf neg \<Rightarrow> DInf (\<not> neg) | DFin m e \<Rightarrow> DFin (- m) e)"

definition roundSigned :: "bool \<Rightarrow> nat \<Rightarrow> nat \<Rightarrow> int \<Rightarrow> double" where
  "roundSigned neg n d e = (if neg then dneg (roundPos n d e) else roundPos n d e)"

text \<open>\<^verbatim>\<open>Number(x)\<close> for a \<^verbatim>\<open>BigInt\<close>, and the double that holds an integer field.\<close>

definition toDouble :: "int \<Rightarrow> double" where
  "toDouble a = (if a = 0 then DFin 0 0 else roundSigned (a < 0) (nat \<bar>a\<bar>) 1 0)"

text \<open>Multiplication: infinity times zero is \<^verbatim>\<open>NaN\<close>.\<close>

definition dmul :: "double \<Rightarrow> double \<Rightarrow> double" where
  "dmul x y =
     (case x of
        DNaN \<Rightarrow> DNaN
      | DInf s \<Rightarrow>
          (case y of
             DNaN \<Rightarrow> DNaN
           | DInf t \<Rightarrow> DInf (s \<noteq> t)
           | DFin m e \<Rightarrow> if m = 0 then DNaN else DInf (s \<noteq> (m < 0)))
      | DFin m1 e1 \<Rightarrow>
          (case y of
             DNaN \<Rightarrow> DNaN
           | DInf t \<Rightarrow> if m1 = 0 then DNaN else DInf (t \<noteq> (m1 < 0))
           | DFin m2 e2 \<Rightarrow>
               if m1 * m2 = 0 then DFin 0 0
               else roundSigned (m1 * m2 < 0) (nat \<bar>m1 * m2\<bar>) 1 (e1 + e2)))"

text \<open>
  Division: a non-zero number divided by zero is infinite, zero by zero and infinity by
  infinity are \<^verbatim>\<open>NaN\<close>, a finite number divided by infinity is zero.
\<close>

definition ddiv :: "double \<Rightarrow> double \<Rightarrow> double" where
  "ddiv x y =
     (case x of
        DNaN \<Rightarrow> DNaN
      | DInf s \<Rightarrow>
          (case y of
             DNaN \<Rightarrow> DNaN
           | DInf t \<Rightarrow> DNaN
           | DFin m e \<Rightarrow> DInf (s \<noteq> (m < 0)))
      | DFin m1 e1 \<Rightarrow>
          (case y of
             DNaN \<Rightarrow> DNaN
           | DInf t \<Rightarrow> DFin 0 0
           | DFin m2 e2 \<Rightarrow>
               if m2 = 0 then (if m1 = 0 then DNaN else DInf (m1 < 0))
               else if m1 = 0 then DFin 0 0
               else roundSigned ((m1 < 0) \<noteq> (m2 < 0)) (nat \<bar>m1\<bar>) (nat \<bar>m2\<bar>) (e1 - e2)))"

text \<open>
  \<^verbatim>\<open>Math.sqrt\<close>: the double nearest to the square root. For \<open>x = m * 2^e\<close> with binary
  exponent \<open>E\<close> the root has the binary exponent \<open>E div 2\<close>, the spacing is \<open>2^p\<close> with
  \<open>p = E div 2 - 52\<close>, and the nearest multiple of \<open>2^p\<close> is found from the integer
  square root of \<open>4 * x / 2^(2 * p)\<close> (the root of a double is never half-way between
  two doubles).
\<close>

definition dsqrt :: "double \<Rightarrow> double" where
  "dsqrt x =
     (case x of
        DNaN \<Rightarrow> DNaN
      | DInf neg \<Rightarrow> (if neg then DNaN else DInf False)
      | DFin m e \<Rightarrow>
          if m < 0 then DNaN
          else if m = 0 then DFin 0 0
          else
            (let E = e + int (bitlen (nat m)) - 1;
                 p = E div 2 - 52;
                 sh = e - 2 * p + 2;
                 X4 = (if 0 \<le> sh then nat m * 2 ^ nat sh else nat m div 2 ^ nat (- sh))
             in DFin (int ((floorSqrt X4 + 1) div 2)) p))"

text \<open>\<^verbatim>\<open>Math.floor\<close>.\<close>

definition dfloor :: "double \<Rightarrow> double" where
  "dfloor x =
     (case x of
        DNaN \<Rightarrow> DNaN
      | DInf neg \<Rightarrow> DInf neg
      | DFin m e \<Rightarrow> if 0 \<le> e then DFin m e else DFin (m div 2 ^ nat (- e)) 0)"

text \<open>The comparisons \<^verbatim>\<open><\<close> and \<^verbatim>\<open><=\<close>, which are false when an operand is \<^verbatim>\<open>NaN\<close>.\<close>

definition scaled :: "int \<Rightarrow> int \<Rightarrow> int \<Rightarrow> int" where
  "scaled m e low = m * 2 ^ nat (e - low)"

definition dless :: "double \<Rightarrow> double \<Rightarrow> bool" where
  "dless x y =
     (case x of
        DNaN \<Rightarrow> False
      | DInf s \<Rightarrow> (case y of DNaN \<Rightarrow> False | DInf t \<Rightarrow> s \<and> \<not> t | DFin m e \<Rightarrow> s)
      | DFin m1 e1 \<Rightarrow>
          (case y of
             DNaN \<Rightarrow> False
           | DInf t \<Rightarrow> \<not> t
           | DFin m2 e2 \<Rightarrow> scaled m1 e1 (min e1 e2) < scaled m2 e2 (min e1 e2)))"

definition dle :: "double \<Rightarrow> double \<Rightarrow> bool" where
  "dle x y =
     (case x of
        DNaN \<Rightarrow> False
      | DInf s \<Rightarrow> (case y of DNaN \<Rightarrow> False | DInf t \<Rightarrow> s \<or> \<not> t | DFin m e \<Rightarrow> s)
      | DFin m1 e1 \<Rightarrow>
          (case y of
             DNaN \<Rightarrow> False
           | DInf t \<Rightarrow> \<not> t
           | DFin m2 e2 \<Rightarrow> scaled m1 e1 (min e1 e2) \<le> scaled m2 e2 (min e1 e2)))"

section \<open>JavaScript numbers and strings\<close>

text \<open>
  Amounts and decimals reach the library as JavaScript numbers. The code only tests them
  (\<^verbatim>\<open>Number.isFinite\<close>, \<^verbatim>\<open>Number.isInteger\<close>, comparison with 0) and prints them
  (\<^verbatim>\<open>toString\<close>), so a number is modelled by the decimal that \<^verbatim>\<open>toString\<close> prints:
  \<open>Fin neg s e\<close> is the number \<open>s * 10^e\<close>, negated when \<open>neg\<close> holds. Every finite
  double is such a decimal (the shortest one that reads back as the same double);
  \<open>Infinity neg\<close> is one of the two infinities.
\<close>

datatype jsnum = NaN | Infinity bool | Fin bool nat int

datatype error =
    InvalidAmount
  | InvalidDecimals
  | SyntaxError
  | InvalidPrincipal
  | UIntOutOfRange
  | ZeroAmount
  | RatioTooLow double
  | DepositTooSmall
  | DecimalsUnavailable

text \<open>The significand without trailing zeros.\<close>

fun stripZeros :: "nat \<Rightarrow> int \<Rightarrow> nat \<times> int" where
  "stripZeros s e =
     (if s \<noteq> 0 \<and> s mod 10 = 0 then stripZeros (s div 10) (e + 1) else (s, e))"

definition isFinite :: "jsnum \<Rightarrow> bool" where
  "isFinite x = (case x of Fin neg s e \<Rightarrow> True | _ \<Rightarrow> False)"

definition isNegative :: "jsnum \<Rightarrow> bool" where
  "isNegative x =
     (case x of Fin neg s e \<Rightarrow> neg \<and> s \<noteq> 0 | Infinity neg \<Rightarrow> neg | NaN \<Rightarrow> False)"

definition isZero :: "jsnum \<Rightarrow> bool" where
  "isZero x = (case x of Fin neg s e \<Rightarrow> s = 0 | _ \<Rightarrow> False)"

definition isInteger :: "jsnum \<Rightarrow> bool" where
  "isInteger x =
     (case x of
        Fin neg s e \<Rightarrow> (case stripZeros s e of (m, e') \<Rightarrow> m = 0 \<or> 0 \<le> e')
      | _ \<Rightarrow> False)"

text \<open>The value of a non-negative integral number, as \<^verbatim>\<open>BigInt(decimals)\<close> reads it.\<close>

definition toNat :: "jsnum \<Rightarrow> nat" where
  "toNat x =
     (case x of
        Fin neg s e \<Rightarrow> (case stripZeros s e of (m, e') \<Rightarrow> m * 10 ^ nat e')
      | _ \<Rightarrow> 0)"

text \<open>The exact value of a finite number.\<close>

definition valueOf :: "jsnum \<Rightarrow> real" where
  "valueOf x =
     (case x of
        Fin neg s e \<Rightarrow> (if neg then - 1 else 1) * real s * 10 powi e
      | _ \<Rightarrow> 0)"

definition digitChar :: "nat \<Rightarrow> char" where
  "digitChar d = ''0123456789'' ! d"

fun digitsOf :: "nat \<Rightarrow> string" where
  "digitsOf n = (if n < 10 then [digitChar n] else digitsOf (n div 10) @ [digitChar (n mod 10)])"

text \<open>
  \<^verbatim>\<open>Number.prototype.toString\<close> (ECMAScript, Number::toString with radix 10) for a
  positive number \<open>m * 10^e\<close> whose significand \<open>m\<close> has no trailing zero: with \<open>k\<close>
  the number of digits of \<open>m\<close> and \<open>n = e + k\<close>, the number is printed in plain
  notation when \<open>-6 < n \<le> 21\<close> and in exponent notation otherwise.
\<close>

definition positiveToString :: "nat \<Rightarrow> int \<Rightarrow> string" where
  "positiveToString m e =
     (let ds = digitsOf m; k = int (length ds); n = e + k in
      if k \<le> n \<and> n \<le> 21 then ds @ replicate (nat (n - k)) CHR ''0''
      else if 0 < n \<and> n \<le> 21 then take (nat n) ds @ ''.'' @ drop (nat n) ds
      else if - 6 < n \<and> n \<le> 0 then ''0.'' @ replicate (nat (- n)) CHR ''0'' @ ds
      else
        (let ex = n - 1;
             exponentSign = (if ex < 0 then ''-'' else ''+'');
             exponentDigits = digitsOf (nat \<bar>ex\<bar>)
         in if k = 1 then ds @ ''e'' @ exponentSign @ exponentDigits
            else take 1 ds @ ''.'' @ drop 1 ds @ ''e'' @ exponentSign @ exponentDigits))"

definition numberToString :: "jsnum \<Rightarrow> string" where
  "numberToString x =
     (case x of
        NaN \<Rightarrow> ''NaN''
      | Infinity neg \<Rightarrow> (if neg then ''-Infinity'' else ''Infinity'')
      | Fin neg s e \<Rightarrow>
          (case stripZeros s e of
             (m, e') \<Rightarrow>
               if m = 0 then ''0''
               else (if neg then ''-'' else '''') @ positiveToString m e'))"

text \<open>
  A template literal prints an integer field with \<^verbatim>\<open>Number::toString\<close> as well. Below
  \<open>2^53\<close> every integer is a double and is printed with all its digits. From there on
  the field holds the nearest double \<open>x\<close>, and the digits printed are the shortest
  significand \<open>s\<close> with \<open>s * 10^j\<close> rounding to \<open>x\<close>, the nearest to \<open>x\<close> when there
  are two (the even one when both are equally near).
\<close>

definition sameDouble :: "double \<Rightarrow> double \<Rightarrow> bool" where
  "sameDouble x y = (dle x y \<and> dle y x)"

definition doubleNat :: "double \<Rightarrow> nat" where
  "doubleNat x =
     (case x of
        DFin m e \<Rightarrow> if 0 \<le> e then nat m * 2 ^ nat e else nat (m div 2 ^ nat (- e))
      | _ \<Rightarrow> 0)"

fun shortestDigits :: "nat \<Rightarrow> nat \<Rightarrow> nat \<times> nat" where
  "shortestDigits x 0 = (x, 0)"
| "shortestDigits x (Suc j) =
     (let unit = 10 ^ Suc j;
          lo = x div unit;
          hi = lo + 1;
          okLo = sameDouble (toDouble (int (lo * unit))) (toDouble (int x));
          okHi = sameDouble (toDouble (int (hi * unit))) (toDouble (int x));
          nearLo = x - lo * unit;
          nearHi = hi * unit - x
      in if okLo \<and> okHi
         then (if nearLo < nearHi \<or> (nearLo = nearHi \<and> even lo) then (lo, Suc j) else (hi, Suc j))
         else if okLo then (lo, Suc j)
         else if okHi then (hi, Suc j)
         else shortestDigits x j)"

definition natToString :: "nat \<Rightarrow> string" where
  "natToString n =
     (if n < 2 ^ 53 then numberToString (Fin False n 0)
      else
        (let x = doubleNat (toDouble (int n))
         in case shortestDigits x (length (digitsOf x) - 1) of
              (s, j) \<Rightarrow> numberToString (Fin False s (int j))))"

text \<open>\<^verbatim>\<open>String.prototype.split\<close> with a one-character separator.\<close>

fun split :: "char \<Rightarrow> string \<Rightarrow> string list" where
  "split sep [] = [[]]"
| "split sep (c # cs) =
     (if c = sep then [] # split sep cs
      else (case split sep cs of
              [] \<Rightarrow> [[c]]
            | p # ps \<Rightarrow> (c # p) # ps))"

definition padEnd :: "nat \<Rightarrow> char \<Rightarrow> string \<Rightarrow> string" where
  "padEnd n c s = s @ replicate (n - length s) c"

definition isDigit :: "char \<Rightarrow> bool" where
  "isDigit c = (c \<in> set ''0123456789'')"

definition digitValue :: "char \<Rightarrow> nat" where
  "digitValue c = of_char c - 48"

definition digitsValue :: "string \<Rightarrow> nat" where
  "digitsValue s = foldl (\<lambda>acc c. 10 * acc + digitValue c) 0 s"

text \<open>
  \<^verbatim>\<open>BigInt(string)\<close> on the strings that reach it here, which consist of digits and of
  the characters \<^verbatim>\<open>e\<close>, \<^verbatim>\<open>+\<close> and \<^verbatim>\<open>-\<close> of an exponent: an optional sign followed by
  decimal digits is read as an integer, the empty string is \<^verbatim>\<open>0n\<close>, and anything else
  raises \<^verbatim>\<open>SyntaxError\<close>. (Surrounding white space and the prefixes \<^verbatim>\<open>0x\<close>, \<^verbatim>\<open>0o\<close>,
  \<^verbatim>\<open>0b\<close>, which \<^verbatim>\<open>BigInt\<close> also accepts, cannot occur in these strings.)
\<close>

definition parseBigInt :: "string \<Rightarrow> error + int" where
  "parseBigInt s =
     (case s of
        [] \<Rightarrow> Inr 0
      | c # cs \<Rightarrow>
          if list_all isDigit s then Inr (int (digitsValue s))
          else if c = CHR ''-'' \<and> cs \<noteq> [] \<and> list_all isDigit cs then Inr (- int (digitsValue cs))
          else if c = CHR ''+'' \<and> cs \<noteq> [] \<and> list_all isDigit cs then Inr (int (digitsValue cs))
          else Inl SyntaxError)"

text \<open>\<^verbatim>\<open>s || fallback\<close> on strings: the empty string is falsy.\<close>

definition orElse :: "string \<Rightarrow> string \<Rightarrow> string" where
  "orElse s fallback = (if s = [] then fallback else s)"

text \<open>
  \<^verbatim>\<open>toBaseUnits\<close> of \<^verbatim>\<open>frontend/lib/amm.ts\<close>. The destructuring
  \<^verbatim>\<open>[intPart, fracRaw] = amount.toString().split(".")\<close> takes the first two pieces;
  \<^verbatim>\<open>fracRaw\<close> is \<^verbatim>\<open>undefined\<close> when there is no second piece, and
  \<^verbatim>\<open>fracRaw || ""\<close> is then the empty string.
\<close>

definition toBaseUnits :: "jsnum \<Rightarrow> jsnum \<Rightarrow> error + int" where
  "toBaseUnits amount decimals =
     (if \<not> isFinite amount \<or> isNegative amount then Inl InvalidAmount
      else if \<not> isInteger decimals \<or> isNegative decimals then Inl InvalidDecimals
      else
        (let parts = split CHR ''.'' (numberToString amount);
             intPart = (case parts of [] \<Rightarrow> [] | p # ps \<Rightarrow> p);
             fracRaw = (case parts of p # q # ps \<Rightarrow> q | _ \<Rightarrow> []);
             fracPart = take (toNat decimals) (padEnd (toNat decimals) CHR ''0'' (orElse fracRaw []));
             base = (10::int) ^ toNat decimals
         in case parseBigInt (orElse intPart ''0'') of
              Inl err \<Rightarrow> Inl err
            | Inr intValue \<Rightarrow>
                (case parseBigInt (orElse fracPart ''0'') of
                   Inl err \<Rightarrow> Inl err
                 | Inr fracUnits \<Rightarrow> Inr (intValue * base + fracUnits))))"

section \<open>Pools\<close>

text \<open>
  The \<^verbatim>\<open>Pool\<close> type of \<^verbatim>\<open>frontend/lib/amm.ts\<close>. The numeric fields are JavaScript
  numbers that hold Clarity \<^verbatim>\<open>uint\<close> values read from the contract or from an event
  payload; they are modelled as natural numbers (a number that is not an unsigned integer,
  such as \<^verbatim>\<open>NaN\<close> from a missing field, is outside the model). The field \<^verbatim>\<open>id\<close> is
  called \<open>pool_id\<close> here.
\<close>

record Pool =
  pool_id :: string
  token0 :: string
  token1 :: string
  fee :: nat
  liquidity :: nat
  balance0 :: nat
  balance1 :: nat

section \<open>The swap estimator\<close>

text \<open>
  \<^verbatim>\<open>BigInt\<close> division truncates towards zero. The estimator only divides after it has
  checked that the divisor is positive; a zero divisor would raise \<^verbatim>\<open>RangeError\<close>.
\<close>

definition bigint_div :: "int \<Rightarrow> int \<Rightarrow> int" where
  "bigint_div a b = sgn a * sgn b * (\<bar>a\<bar> div \<bar>b\<bar>)"

text \<open>
  The quantities of \<^verbatim>\<open>estimateSwapOutput\<close> in the swap component:
  \<^verbatim>\<open>k = x * y\<close>, \<^verbatim>\<open>term = k / xPlus\<close> (or \<^verbatim>\<open>k / yPlus\<close>), \<^verbatim>\<open>output = y - term\<close>
  (or \<^verbatim>\<open>x - term\<close>) and \<^verbatim>\<open>fees = (output * fee) / 10000\<close>.
\<close>

definition swapK :: "Pool \<Rightarrow> int" where
  "swapK pool = int (balance0 pool) * int (balance1 pool)"

definition swapPlus :: "Pool \<Rightarrow> bool \<Rightarrow> int \<Rightarrow> int" where
  "swapPlus pool zeroForOne deltaBaseUnits =
     (if zeroForOne then int (balance0 pool) + deltaBaseUnits
      else int (balance1 pool) + deltaBaseUnits)"

definition swapTerm :: "Pool \<Rightarrow> bool \<Rightarrow> int \<Rightarrow> int" where
  "swapTerm pool zeroForOne deltaBaseUnits =
     bigint_div (swapK pool) (swapPlus pool zeroForOne deltaBaseUnits)"

definition swapOutput :: "Pool \<Rightarrow> bool \<Rightarrow> int \<Rightarrow> int" where
  "swapOutput pool zeroForOne deltaBaseUnits =
     (if zeroForOne then int (balance1 pool) - swapTerm pool zeroForOne deltaBaseUnits
      else int (balance0 pool) - swapTerm pool zeroForOne deltaBaseUnits)"

definition swapFees :: "Pool \<Rightarrow> int \<Rightarrow> int" where
  "swapFees pool output = bigint_div (output * int (fee pool)) 10000"

text \<open>
  What the estimator shows: the value given to \<^verbatim>\<open>setEstimatedToAmount\<close> and the one
  given to \<^verbatim>\<open>setDisabledReason\<close> (\<open>None\<close> is \<^verbatim>\<open>null\<close>).
\<close>

record quote =
  estimatedToAmount :: int
  disabledReason :: "string option"

definition disabled :: "string \<Rightarrow> quote" where
  "disabled reason = \<lparr>estimatedToAmount = 0, disabledReason = Some reason\<rparr>"

text \<open>
  \<^verbatim>\<open>estimateSwapOutput\<close> of the swap component, from the point where the pool has been
  selected and the amount is known to be positive. The function reads the pool and the
  direction from the component state and obtains \<^verbatim>\<open>deltaBaseUnits\<close> from
  \<^verbatim>\<open>toBaseUnits\<close>; here the three are arguments. The guards come in the order of the
  source.
\<close>

definition estimateSwapOutput :: "Pool \<Rightarrow> bool \<Rightarrow> int \<Rightarrow> quote" where
  "estimateSwapOutput pool zeroForOne deltaBaseUnits =
     (let x = int (balance0 pool); y = int (balance1 pool) in
      if x \<le> 0 \<or> y \<le> 0 then disabled ''Pool has zero reserves''
      else if deltaBaseUnits \<le> 0 then disabled ''Amount too small after decimals conversion''
      else if swapPlus pool zeroForOne deltaBaseUnits \<le> 0
        then disabled ''Invalid pool state for swap''
      else
        (let output = swapOutput pool zeroForOne deltaBaseUnits in
         if output \<le> 0 then disabled ''Output is zero; try a larger amount''
         else
           (let fees = swapFees pool output;
                outputAfterFees = output - fees
            in \<lparr>estimatedToAmount = (if outputAfterFees > 0 then outputAfterFees else 0),
                disabledReason =
                  (if outputAfterFees > 0 then None
                   else Some ''Output becomes zero after fees'')\<rparr>)))"

text \<open>The pool of the worked scenario: reserves of one million each, fee 500.\<close>

definition scenarioPool :: Pool where
  "scenarioPool =
     \<lparr>pool_id = ''0x01'',
      token0 = ''ST19JE8EPR84AJ8Z30B5ZB08WXTB6FC2SQHT4K9RM.mock-token'',
      token1 = ''ST19JE8EPR84AJ8Z30B5ZB08WXTB6FC2SQHT4K9RM.mock-token-2'',
      fee = 500, liquidity = 1000000, balance0 = 1000000, balance1 = 1000000\<rparr>"

text \<open>The amount shown as a function of the raw output, once all guards have passed.\<close>

definition afterFees :: "Pool \<Rightarrow> int \<Rightarrow> int" where
  "afterFees pool out =
     (if out \<le> 0 then 0
      else if out - swapFees pool out > 0 then out - swapFees pool out else 0)"

section \<open>Clarity values and their JSON form\<close>

text \<open>
  The values that the Stacks library exchanges with the contract. A buffer is given by
  the hex digits of its bytes, a principal by its text.
\<close>

datatype cv =
    IntCV int
  | UIntCV int
  | BoolCV bool
  | BufferCV string
  | PrincipalCV string
  | NoneCV
  | SomeCV cv
  | OkCV cv
  | ErrCV cv
  | ListCV "cv list"
  | TupleCV "(string \<times> cv) list"
  | StringAsciiCV string
  | StringUtf8CV string

definition joinWith :: "string \<Rightarrow> string list \<Rightarrow> string" where
  "joinWith sep xs = (case xs of [] \<Rightarrow> [] | y # ys \<Rightarrow> foldl (\<lambda>acc x. acc @ sep @ x) y ys)"

definition bigintToString :: "int \<Rightarrow> string" where
  "bigintToString i = (if i < 0 then ''-'' @ digitsOf (nat (- i)) else digitsOf (nat i))"

text \<open>
  \<^verbatim>\<open>getCVTypeString\<close> of the library: the type of a value in the notation of Clarity.
  This is the \<^verbatim>\<open>type\<close> that \<^verbatim>\<open>cvToJSON\<close> gives every value.
\<close>

primrec cvTypeString :: "cv \<Rightarrow> string" where
  "cvTypeString (IntCV i) = ''int''"
| "cvTypeString (UIntCV i) = ''uint''"
| "cvTypeString (BoolCV b) = ''bool''"
| "cvTypeString (BufferCV h) = ''(buff '' @ digitsOf (length h div 2) @ '')''"
| "cvTypeString (PrincipalCV p) = ''principal''"
| "cvTypeString NoneCV = ''(optional none)''"
| "cvTypeString (SomeCV v) = ''(optional '' @ cvTypeString v @ '')''"
| "cvTypeString (OkCV v) = ''(response '' @ cvTypeString v @ '' UnknownType)''"
| "cvTypeString (ErrCV v) = ''(response UnknownType '' @ cvTypeString v @ '')''"
| "cvTypeString (ListCV vs) =
     ''(list '' @ digitsOf (length vs) @ '' ''
       @ (case map cvTypeString vs of [] \<Rightarrow> ''UnknownType'' | t # ts \<Rightarrow> t) @ '')''"
| "cvTypeString (TupleCV fs) =
     ''(tuple ''
       @ joinWith '' '' (map (\<lambda>kt. ''('' @ fst kt @ '' '' @ snd kt @ '')'')
                          (map (map_prod id cvTypeString) fs))
       @ '')''"
| "cvTypeString (StringAsciiCV s) = ''(string-ascii '' @ digitsOf (length s) @ '')''"
| "cvTypeString (StringUtf8CV s) = ''(string-utf8 '' @ digitsOf (length s) @ '')''"

datatype json =
    JUndefined
  | JNull
  | JBool bool
  | JString string
  | JArray "json list"
  | JObject "(string \<times> json) list"

definition typed :: "string \<Rightarrow> json \<Rightarrow> json" where
  "typed t v = JObject [(''type'', JString t), (''value'', v)]"

definition typedResponse :: "string \<Rightarrow> json \<Rightarrow> bool \<Rightarrow> json" where
  "typedResponse t v ok = JObject [(''type'', JString t), (''value'', v), (''success'', JBool ok)]"

text \<open>
  \<^verbatim>\<open>cvToJSON\<close> of the library: an object with the type of the value and, under
  \<^verbatim>\<open>value\<close>, the JSON form of the content: integers as decimal text, a buffer as
  \<^verbatim>\<open>0x\<close> and its hex digits, the content of a response or of an optional as its own
  \<^verbatim>\<open>cvToJSON\<close>, \<^verbatim>\<open>none\<close> as \<^verbatim>\<open>null\<close>.
\<close>

primrec cvToJSON :: "cv \<Rightarrow> json" where
  "cvToJSON (IntCV i) = typed (cvTypeString (IntCV i)) (JString (bigintToString i))"
| "cvToJSON (UIntCV i) = typed (cvTypeString (UIntCV i)) (JString (bigintToString i))"
| "cvToJSON (BoolCV b) = typed (cvTypeString (BoolCV b)) (JBool b)"
| "cvToJSON (BufferCV h) = typed (cvTypeString (BufferCV h)) (JString (''0x'' @ h))"
| "cvToJSON (PrincipalCV p) = typed (cvTypeString (PrincipalCV p)) (JString p)"
| "cvToJSON NoneCV = typed (cvTypeString NoneCV) JNull"
| "cvToJSON (SomeCV v) = typed (cvTypeString (SomeCV v)) (cvToJSON v)"
| "cvToJSON (OkCV v) = typedResponse (cvTypeString (OkCV v)) (cvToJSON v) True"
| "cvToJSON (ErrCV v) = typedResponse (cvTypeString (ErrCV v)) (cvToJSON v) False"
| "cvToJSON (ListCV vs) = typed (cvTypeString (ListCV vs)) (JArray (map cvToJSON vs))"
| "cvToJSON (TupleCV fs) =
     typed (cvTypeString (TupleCV fs)) (JObject (map (map_prod id cvToJSON) fs))"
| "cvToJSON (StringAsciiCV s) = typed (cvTypeString (StringAsciiCV s)) (JString s)"
| "cvToJSON (StringUtf8CV s) = typed (cvTypeString (StringUtf8CV s)) (JString s)"

text \<open>Reading a property of a JSON value; a property that is missing is \<^verbatim>\<open>undefined\<close>.\<close>

definition getProp :: "json \<Rightarrow> string \<Rightarrow> json" where
  "getProp j k =
     (case j of
        JObject fs \<Rightarrow> (case map_of fs k of None \<Rightarrow> JUndefined | Some v \<Rightarrow> v)
      | _ \<Rightarrow> JUndefined)"

text \<open>The test \<^verbatim>\<open>json?.type === tag\<close>.\<close>

definition hasType :: "json \<Rightarrow> string \<Rightarrow> bool" where
  "hasType j tag = (getProp j ''type'' = JString tag)"

text \<open>
  The two unwrapping steps that the code applies to a reply:
  \<^verbatim>\<open>if (type is "response-ok" or "responseOk") json = json.value\<close>, and the same for
  \<^verbatim>\<open>"optional-some"\<close> and \<^verbatim>\<open>"optionalSome"\<close>.
\<close>

definition unwrapOk :: "json \<Rightarrow> json" where
  "unwrapOk j = (if hasType j ''response-ok'' \<or> hasType j ''responseOk'' then getProp j ''value'' else j)"

definition unwrapSome :: "json \<Rightarrow> json" where
  "unwrapSome j =
     (if hasType j ''optional-some'' \<or> hasType j ''optionalSome'' then getProp j ''value'' else j)"

text \<open>\<^verbatim>\<open>getJsonInnerValue\<close>: the \<^verbatim>\<open>value\<close> of an object that has one, else the value itself.\<close>

definition getJsonInnerValue :: "json \<Rightarrow> json" where
  "getJsonInnerValue j =
     (case j of
        JObject fs \<Rightarrow> (case map_of fs ''value'' of None \<Rightarrow> j | Some v \<Rightarrow> v)
      | _ \<Rightarrow> j)"

text \<open>
  How the code reads the reply of \<^verbatim>\<open>get-pool-id\<close>: after the two unwrapping steps the
  type must be \<^verbatim>\<open>"buffer"\<close> or \<^verbatim>\<open>"buff"\<close>, and the id is the \<^verbatim>\<open>value\<close>. (An id that
  is not a string cannot be turned into a buffer for the next call.)
\<close>

definition poolIdOfReply :: "cv \<Rightarrow> string option" where
  "poolIdOfReply reply =
     (let poolIdCV = unwrapSome (unwrapOk (cvToJSON reply))
      in if hasType poolIdCV ''buffer'' \<or> hasType poolIdCV ''buff''
         then (case getProp poolIdCV ''value'' of JString poolId \<Rightarrow> Some poolId | _ \<Rightarrow> None)
         else None)"

text \<open>
  How the code reads the reply of \<^verbatim>\<open>pool-exists\<close>: after unwrapping a response, the
  inner value if it is a boolean, and otherwise whether \<^verbatim>\<open>value\<close> is \<^verbatim>\<open>true\<close>.
\<close>

definition existsOfReply :: "cv \<Rightarrow> bool" where
  "existsOfReply reply =
     (let poolExistsJSON = unwrapOk (cvToJSON reply);
          existsVal = getJsonInnerValue poolExistsJSON
      in case existsVal of
           JBool b \<Rightarrow> b
         | _ \<Rightarrow> getProp poolExistsJSON ''value'' = JBool True)"

section \<open>Token order\<close>

text \<open>
  \<^verbatim>\<open>cvToHex(principalCV(token))\<close> belongs to the Stacks library: it is a parameter
  \<open>hx\<close> (the field \<open>hexOf\<close> of the ledger below), with \<open>None\<close> where
  \<^verbatim>\<open>principalCV\<close> throws. JavaScript compares the two hex strings by code units,
  which on these ASCII strings is the lexicographic order of \<^typ>\<open>string\<close>.
\<close>

text \<open>
  Lines 200 to 212 of \<^verbatim>\<open>getAllPools\<close>: the pair is swapped when the hex of token 0 is
  greater; when a principal does not parse, the order of the event is kept.
\<close>

definition canonicalize :: "(string \<Rightarrow> string option) \<Rightarrow> string \<Rightarrow> string \<Rightarrow> string \<times> string" where
  "canonicalize hx tok0 tok1 =
     (case hx tok0 of
        None \<Rightarrow> (tok0, tok1)
      | Some t0Hex \<Rightarrow>
          (case hx tok1 of
             None \<Rightarrow> (tok0, tok1)
           | Some t1Hex \<Rightarrow> if t0Hex > t1Hex then (tok1, tok0) else (tok0, tok1)))"

record call_options =
  contractAddress :: string
  contractName :: string
  functionName :: string
  functionArgs :: "cv list"

definition AMM_CONTRACT_ADDRESS :: string where
  "AMM_CONTRACT_ADDRESS = ''ST19JE8EPR84AJ8Z30B5ZB08WXTB6FC2SQHT4K9RM''"

definition AMM_CONTRACT_NAME :: string where
  "AMM_CONTRACT_NAME = ''amm-v2''"

definition AMM_CONTRACT_PRINCIPAL :: string where
  "AMM_CONTRACT_PRINCIPAL = AMM_CONTRACT_ADDRESS @ ''.'' @ AMM_CONTRACT_NAME"

text \<open>
  \<^verbatim>\<open>uintCV\<close> of a \<^verbatim>\<open>BigInt\<close> throws outside the range of a Clarity \<^verbatim>\<open>uint\<close> (128
  bits). Given a JavaScript number, it throws as well when the number is greater than
  \<^verbatim>\<open>Number.MAX_SAFE_INTEGER\<close>, which is \<open>2^53 - 1\<close>.
\<close>

definition uintCV :: "int \<Rightarrow> error + cv" where
  "uintCV v = (if v < 0 \<or> 2 ^ 128 \<le> v then Inl UIntOutOfRange else Inr (UIntCV v))"

definition uintCVNumber :: "nat \<Rightarrow> error + cv" where
  "uintCVNumber n = (if 2 ^ 53 - 1 < n then Inl UIntOutOfRange else uintCV (int n))"

text \<open>\<^verbatim>\<open>createPool\<close>: the same comparison; here a principal that does not parse throws.\<close>

definition createPool :: "(string \<Rightarrow> string option) \<Rightarrow> string \<Rightarrow> string \<Rightarrow> nat \<Rightarrow> error + call_options" where
  "createPool hx tok0 tok1 f =
     (case hx tok0 of
        None \<Rightarrow> Inl InvalidPrincipal
      | Some token0Hex \<Rightarrow>
          (case hx tok1 of
             None \<Rightarrow> Inl InvalidPrincipal
           | Some token1Hex \<Rightarrow>
               (let (t0, t1) = (if token0Hex > token1Hex then (tok1, tok0) else (tok0, tok1))
                in case uintCVNumber f of
                     Inl err \<Rightarrow> Inl err
                   | Inr feeArg \<Rightarrow>
                       Inr \<lparr>contractAddress = AMM_CONTRACT_ADDRESS,
                            contractName = AMM_CONTRACT_NAME,
                            functionName = ''create-pool'',
                            functionArgs = [PrincipalCV t0, PrincipalCV t1, feeArg]\<rparr>)))"

section \<open>The ledger as the client sees it\<close>

text \<open>
  The entries of the event log that the code reads (\<^verbatim>\<open>ContractEvent\<close>): the event
  type, and the contract, topic and hex value of the contract log.
\<close>

record ContractEvent =
  event_type :: string
  contract_id :: string
  topic :: string
  value_hex :: string

text \<open>
  One page request: \<open>FetchFailed\<close> is every way in which the \<^verbatim>\<open>try\<close> block leaves the
  loop through \<^verbatim>\<open>break\<close> before an event is processed (a response that is not ok, a
  rejected \<^verbatim>\<open>fetch\<close>, a body that does not parse).
\<close>

datatype fetch_result = FetchFailed | Page "ContractEvent list"

text \<open>
  What lines 175 to 196 read from a log value that passes their checks: a tuple whose
  action is \<^verbatim>\<open>create-pool\<close>, with the tokens and fee of its data, and the liquidity and
  balances when the payload carries them.
\<close>

record create_pool_log =
  log_token0 :: string
  log_token1 :: string
  log_fee :: nat
  log_liquidity :: "nat option"
  log_balance0 :: "nat option"
  log_balance1 :: "nat option"

text \<open>
  The places at which a discovery run makes read-only calls. The contract may answer
  the same question differently each time it is asked, so every reply is given for the
  place of the call: the read chain and the resolution for the event with a given index
  among the filtered events of the page at a given offset, the probe of the direct sweep
  with a given index, and the fix-up of the pool with a given index.
\<close>

datatype site = EventChain nat nat | EventResolve nat nat | Sweep nat | FixUp nat

text \<open>
  The external collaborators. \<open>fetchEvents offset\<close> is the page of 50 requested at an
  offset. \<open>decodeLog hex\<close> is \<^verbatim>\<open>hexToCV\<close> and \<^verbatim>\<open>cvToJSON\<close> followed by the shape checks
  of the loop body, \<open>None\<close> when the entry is skipped (a decode error, no tuple, another
  action). \<open>poolExists\<close> and \<open>getPoolId\<close> are the replies of the read-only calls
  \<^verbatim>\<open>pool-exists\<close> and \<^verbatim>\<open>get-pool-id\<close> as Clarity values, \<open>None\<close> when the call throws.
  \<open>getPoolData\<close> is the reply of \<^verbatim>\<open>get-pool-data\<close> as the code reads it:
  \<open>Some (liquidity, balance0, balance1)\<close> when the reply passes \<^verbatim>\<open>isTupleJSON\<close> and
  these three numbers are read from it, \<open>None\<close> when the call throws or the reply is
  dismissed. \<open>getDecimals\<close> is \<^verbatim>\<open>getTokenDecimals\<close>, which throws or returns a number.
\<close>

record ledger =
  fetchEvents :: "nat \<Rightarrow> fetch_result"
  decodeLog :: "string \<Rightarrow> create_pool_log option"
  hexOf :: "string \<Rightarrow> string option"
  poolExists :: "site \<Rightarrow> string \<Rightarrow> string \<Rightarrow> nat \<Rightarrow> cv option"
  getPoolId :: "site \<Rightarrow> string \<Rightarrow> string \<Rightarrow> nat \<Rightarrow> cv option"
  getPoolData :: "site \<Rightarrow> string \<Rightarrow> (nat \<times> nat \<times> nat) option"
  getDecimals :: "string \<Rightarrow> error + jsnum"

text \<open>
  The chain \<^verbatim>\<open>get-pool-id\<close>, \<^verbatim>\<open>get-pool-data\<close> that the code repeats in the event loop,
  in the direct sweep and in \<^verbatim>\<open>resolvePoolByPair\<close>, for a pair in the order given.
  Building the arguments calls \<^verbatim>\<open>principalCV\<close> on both tokens and \<^verbatim>\<open>uintCV\<close> on the
  fee, which throw (and are caught) when a token does not parse or the fee is not a safe
  integer. Every way in which the chain ends without a pool leaves the caller at the
  same place, so all of them are \<open>None\<close>.
\<close>

definition argsOk :: "ledger \<Rightarrow> string \<Rightarrow> string \<Rightarrow> nat \<Rightarrow> bool" where
  "argsOk L t0 t1 f = (hexOf L t0 \<noteq> None \<and> hexOf L t1 \<noteq> None \<and> f \<le> 2 ^ 53 - 1)"

definition readPool :: "ledger \<Rightarrow> site \<Rightarrow> string \<Rightarrow> string \<Rightarrow> nat \<Rightarrow> Pool option" where
  "readPool L s t0 t1 f =
     (if \<not> argsOk L t0 t1 f then None
      else
        (case getPoolId L s t0 t1 f of
           None \<Rightarrow> None
         | Some reply \<Rightarrow>
             (case poolIdOfReply reply of
                None \<Rightarrow> None
              | Some poolId \<Rightarrow>
                  (case getPoolData L s poolId of
                     None \<Rightarrow> None
                   | Some (liq, b0, b1) \<Rightarrow>
                       Some \<lparr>pool_id = poolId, token0 = t0, token1 = t1, fee = f,
                             liquidity = liq, balance0 = b0, balance1 = b1\<rparr>))))"

text \<open>\<^verbatim>\<open>resolvePoolByPair\<close>: canonical order first, then the chain; \<open>None\<close> is \<^verbatim>\<open>null\<close>.\<close>

definition resolvePoolByPair :: "ledger \<Rightarrow> site \<Rightarrow> string \<Rightarrow> string \<Rightarrow> nat \<Rightarrow> Pool option" where
  "resolvePoolByPair L s token0In token1In f =
     (case hexOf L token0In of
        None \<Rightarrow> None
      | Some t0Hex \<Rightarrow>
          (case hexOf L token1In of
             None \<Rightarrow> None
           | Some t1Hex \<Rightarrow>
               (let (t0, t1) = (if t0Hex > t1Hex then (token1In, token0In) else (token0In, token1In))
                in readPool L s t0 t1 f)))"

subsection \<open>The direct sweep\<close>

definition knownTokens :: "string list" where
  "knownTokens =
     [''ST19JE8EPR84AJ8Z30B5ZB08WXTB6FC2SQHT4K9RM.mock-token'',
      ''ST19JE8EPR84AJ8Z30B5ZB08WXTB6FC2SQHT4K9RM.mock-token-2'',
      ''ST19JE8EPR84AJ8Z30B5ZB08WXTB6FC2SQHT4K9RM.mock-token-3'',
      ''ST19JE8EPR84AJ8Z30B5ZB08WXTB6FC2SQHT4K9RM.mock-token-4'',
      ''ST19JE8EPR84AJ8Z30B5ZB08WXTB6FC2SQHT4K9RM.mock-token-5'',
      ''ST19JE8EPR84AJ8Z30B5ZB08WXTB6FC2SQHT4K9RM.mock-token-6'']"

definition fees :: "nat list" where
  "fees = [500]"

text \<open>The pairs \<open>(tokens[i], tokens[j])\<close> with \<open>i < j\<close>, in the order of the two loops.\<close>

fun indexPairs :: "string list \<Rightarrow> (string \<times> string) list" where
  "indexPairs [] = []"
| "indexPairs (t # ts) = map (Pair t) ts @ indexPairs ts"

text \<open>
  The probes of the sweep, in order: for each pair and each fee, both token orders.
\<close>

definition probes :: "string list \<Rightarrow> nat list \<Rightarrow> (string \<times> string \<times> nat) list" where
  "probes tokens fs =
     concat (map (\<lambda>(ti, tj). concat (map (\<lambda>f. [(ti, tj, f), (tj, ti, f)]) fs)) (indexPairs tokens))"

text \<open>
  One probe, the \<open>i\<close>-th of the sweep: \<^verbatim>\<open>pool-exists\<close>, then the chain. Every exit
  other than the \<^verbatim>\<open>push\<close> is a \<^verbatim>\<open>continue\<close>.
\<close>

definition probe :: "ledger \<Rightarrow> nat \<times> string \<times> string \<times> nat \<Rightarrow> Pool option" where
  "probe L ip =
     (case ip of
        (i, t0, t1, f) \<Rightarrow>
          if \<not> argsOk L t0 t1 f then None
          else
            (case poolExists L (Sweep i) t0 t1 f of
               None \<Rightarrow> None
             | Some reply \<Rightarrow>
                 if \<not> existsOfReply reply then None
                 else readPool L (Sweep i) t0 t1 f))"

definition getAllPoolsDirect :: "ledger \<Rightarrow> Pool list" where
  "getAllPoolsDirect L = List.map_filter (probe L) (List.enumerate 0 (probes knownTokens fees))"

subsection \<open>The event scan\<close>

definition isPoolLog :: "ContractEvent \<Rightarrow> bool" where
  "isPoolLog event =
     (event_type event = ''smart_contract_log''
      \<and> contract_id event = AMM_CONTRACT_PRINCIPAL
      \<and> topic event = ''print'')"

text \<open>
  The fallback pool of lines 278 to 291, built from the payload of the event alone: the
  tokens in canonical order, the synthetic id, and the liquidity and balances of the
  payload, where a missing number counts as 0 and the balances follow the tokens when
  these were swapped.
\<close>

definition fallbackPool :: "ledger \<Rightarrow> create_pool_log \<Rightarrow> Pool" where
  "fallbackPool L d =
     (let t0 = log_token0 d; t1 = log_token1 d; f = log_fee d;
          (canon0, canon1) = canonicalize (hexOf L) t0 t1;
          b0 = (case log_balance0 d of None \<Rightarrow> 0 | Some b \<Rightarrow> b);
          b1 = (case log_balance1 d of None \<Rightarrow> 0 | Some b \<Rightarrow> b);
          balances = (if canon0 = t0 then (b0, b1) else (b1, b0))
      in \<lparr>pool_id = canon0 @ ''-'' @ canon1 @ ''-'' @ natToString f,
          token0 = canon0, token1 = canon1, fee = f,
          liquidity = (case log_liquidity d of None \<Rightarrow> 0 | Some l \<Rightarrow> l),
          balance0 = fst balances, balance1 = snd balances\<rparr>)"

text \<open>
  The body of the inner loop for the \<open>i\<close>-th filtered event of the page at an offset:
  \<open>None\<close> when the event is skipped, otherwise the pool that is pushed. The pool read
  through the chain is used when there is one; otherwise the fallback is built, and
  \<^verbatim>\<open>resolvePoolByPair\<close> may still replace it.
\<close>

definition processEvent :: "ledger \<Rightarrow> nat \<Rightarrow> nat \<times> ContractEvent \<Rightarrow> Pool option" where
  "processEvent L offset ie =
     (case ie of
        (i, event) \<Rightarrow>
          (case decodeLog L (value_hex event) of
             None \<Rightarrow> None
           | Some d \<Rightarrow>
               (let (canon0, canon1) = canonicalize (hexOf L) (log_token0 d) (log_token1 d)
                in case readPool L (EventChain offset i) canon0 canon1 (log_fee d) of
                     Some poolBuilt \<Rightarrow> Some poolBuilt
                   | None \<Rightarrow>
                       (case resolvePoolByPair L (EventResolve offset i) canon0 canon1 (log_fee d) of
                          Some resolved \<Rightarrow> Some resolved
                        | None \<Rightarrow> Some (fallbackPool L d)))))"

text \<open>
  The \<^verbatim>\<open>while (!done)\<close> loop. The offset starts at 0 and grows by 50 after each page
  that was read; a page of fewer than 50 entries sets \<^verbatim>\<open>done\<close>, and a failed request
  breaks out. Nothing bounds the number of full pages, so the model takes fuel and
  returns \<open>None\<close> when it runs out. Besides the pools it returns the offsets that were
  requested, in order.
\<close>

fun scanEvents :: "ledger \<Rightarrow> nat \<Rightarrow> nat \<Rightarrow> Pool list \<Rightarrow> nat list \<Rightarrow> (Pool list \<times> nat list) option" where
  "scanEvents L 0 offset pools requests = None"
| "scanEvents L (Suc fuel) offset pools requests =
     (case fetchEvents L offset of
        FetchFailed \<Rightarrow> Some (pools, requests @ [offset])
      | Page events \<Rightarrow>
          (let filteredEvents = filter isPoolLog events;
               pools' = pools @ List.map_filter (processEvent L offset)
                                  (List.enumerate 0 filteredEvents)
           in if length events < 50 then Some (pools', requests @ [offset])
              else scanEvents L fuel (offset + 50) pools' (requests @ [offset])))"

subsection \<open>Merging, deduplicating and the final fix-up\<close>

text \<open>
  The key under which the code groups pools is the string
  \<^verbatim>\<open>token-0|token-1|fee\<close>. Principals contain no \<^verbatim>\<open>|\<close>, so the string determines its
  three parts; the model uses the triple.
\<close>

definition poolKey :: "Pool \<Rightarrow> string \<times> string \<times> nat" where
  "poolKey p = (token0 p, token1 p, fee p)"

definition isHexDigit :: "char \<Rightarrow> bool" where
  "isHexDigit c = (c \<in> set ''0123456789abcdefABCDEF'')"

definition isHexId :: "string \<Rightarrow> bool" where
  "isHexId i =
     (let s = (if take 2 i = ''0x'' then drop 2 i else i)
      in list_all isHexDigit s \<and> s \<noteq> [])"

text \<open>
  A JavaScript \<^verbatim>\<open>Map\<close> keeps its keys in the order of their first insertion, and
  \<^verbatim>\<open>set\<close> on a key that is present replaces the value in place: an association list
  with \<^const>\<open>AList.update\<close>.
\<close>

definition directByPair :: "Pool list \<Rightarrow> ((string \<times> string \<times> nat) \<times> Pool) list" where
  "directByPair directPools = foldl (\<lambda>m dp. AList.update (poolKey dp) dp m) [] directPools"

definition looksFallback :: "Pool \<Rightarrow> bool" where
  "looksFallback p = (\<not> isHexId (pool_id p) \<or> (balance0 p = 0 \<and> balance1 p = 0))"

definition mergeDirect :: "ledger \<Rightarrow> Pool list \<Rightarrow> Pool list" where
  "mergeDirect L pools =
     (let byPair = directByPair (getAllPoolsDirect L)
      in map (\<lambda>p. case map_of byPair (poolKey p) of
                     None \<Rightarrow> p
                   | Some dp \<Rightarrow> if looksFallback p then dp else p) pools)"

definition dedupStep :: "((string \<times> string \<times> nat) \<times> Pool) list \<Rightarrow> Pool \<Rightarrow> ((string \<times> string \<times> nat) \<times> Pool) list" where
  "dedupStep byPair p =
     (case map_of byPair (poolKey p) of
        None \<Rightarrow> AList.update (poolKey p) p byPair
      | Some existing \<Rightarrow>
          if isHexId (pool_id p) \<and> \<not> isHexId (pool_id existing)
          then AList.update (poolKey p) p byPair
          else byPair)"

definition dedup :: "Pool list \<Rightarrow> Pool list" where
  "dedup pools = map snd (foldl dedupStep [] pools)"

definition fixupOne :: "ledger \<Rightarrow> nat \<times> Pool \<Rightarrow> Pool" where
  "fixupOne L ip =
     (case ip of
        (i, p) \<Rightarrow>
          if \<not> isHexId (pool_id p)
          then (case resolvePoolByPair L (FixUp i) (token0 p) (token1 p) (fee p) of
                  None \<Rightarrow> p
                | Some resolved \<Rightarrow> resolved)
          else p)"

definition fixup :: "ledger \<Rightarrow> Pool list \<Rightarrow> Pool list" where
  "fixup L deduped = map (fixupOne L) (List.enumerate 0 deduped)"

text \<open>
  \<^verbatim>\<open>getAllPools\<close>: the scan; the direct sweep alone when the scan found nothing;
  otherwise merge, deduplicate and fix up. The function has no other exit: it raises
  nothing itself, and its result is \<open>None\<close> only when the scan does not end within the
  fuel.
\<close>

definition getAllPools :: "ledger \<Rightarrow> nat \<Rightarrow> Pool list option" where
  "getAllPools L fuel =
     (case scanEvents L fuel 0 [] [] of
        None \<Rightarrow> None
      | Some (pools, requests) \<Rightarrow>
          if pools = [] then Some (getAllPoolsDirect L)
          else Some (fixup L (dedup (mergeDirect L pools))))"

section \<open>Adding liquidity\<close>

definition MINIMUM_LIQUIDITY :: nat where
  "MINIMUM_LIQUIDITY = 1000"

text \<open>
  Lines 534 to 553 of \<^verbatim>\<open>addLiquidity\<close>; \<open>None\<close> when nothing is thrown. The two
  amounts are \<^verbatim>\<open>BigInt\<close>s and are converted with \<^verbatim>\<open>Number\<close>; the balances are numbers
  already (a field of the record from \<open>2^53\<close> on stands for the double nearest to it).
  The error of the ratio branch carries \<^verbatim>\<open>idealAmount1Base\<close>.
\<close>

definition preflight :: "Pool \<Rightarrow> int \<Rightarrow> int \<Rightarrow> error option" where
  "preflight pool amount0Base amount1Base =
     (if liquidity pool > 0 then
        (let poolRatio = ddiv (toDouble (int (balance0 pool))) (toDouble (int (balance1 pool)));
             idealAmount1Base = dfloor (ddiv (toDouble amount0Base) poolRatio)
         in if dless (toDouble amount1Base) idealAmount1Base
            then Some (RatioTooLow idealAmount1Base)
            else None)
      else
        (let sqrtProduct = dfloor (dsqrt (dmul (toDouble amount0Base) (toDouble amount1Base)))
         in if dle sqrtProduct (toDouble (int MINIMUM_LIQUIDITY)) then Some DepositTooSmall
            else None))"

text \<open>\<^verbatim>\<open>principalCV\<close> throws on a string that is not a principal.\<close>

definition principalCV :: "ledger \<Rightarrow> string \<Rightarrow> error + cv" where
  "principalCV L t = (if hexOf L t = None then Inl InvalidPrincipal else Inr (PrincipalCV t))"

definition bindE :: "error + 'a \<Rightarrow> ('a \<Rightarrow> error + 'b) \<Rightarrow> error + 'b" where
  "bindE r f = (case r of Inl err \<Rightarrow> Inl err | Inr v \<Rightarrow> f v)"

text \<open>
  The call options returned at the end of \<^verbatim>\<open>addLiquidity\<close>. The fee is a number and
  the two amounts are \<^verbatim>\<open>BigInt\<close>s; the arguments are built from left to right, and the
  first that throws ends the call.
\<close>

definition addLiquidityOptions :: "ledger \<Rightarrow> Pool \<Rightarrow> int \<Rightarrow> int \<Rightarrow> error + call_options" where
  "addLiquidityOptions L pool amount0Base amount1Base =
     bindE (principalCV L (token0 pool)) (\<lambda>p0.
     bindE (principalCV L (token1 pool)) (\<lambda>p1.
     bindE (uintCVNumber (fee pool)) (\<lambda>feeArg.
     bindE (uintCV amount0Base) (\<lambda>a0.
     bindE (uintCV amount1Base) (\<lambda>a1.
       Inr \<lparr>contractAddress = AMM_CONTRACT_ADDRESS,
            contractName = AMM_CONTRACT_NAME,
            functionName = ''add-liquidity'',
            functionArgs = [p0, p1, feeArg, a0, a1, UIntCV 0, UIntCV 0]\<rparr>)))))"

text \<open>
  \<^verbatim>\<open>addLiquidity\<close>. The result is what the promise settles to (\<open>Inl\<close> when it
  rejects), together with the tokens whose decimals were looked up, in order.
  \<^verbatim>\<open>amount0 === 0\<close> holds for both zeros and for nothing else.
\<close>

definition addLiquidity :: "ledger \<Rightarrow> Pool \<Rightarrow> jsnum \<Rightarrow> jsnum \<Rightarrow> (error + call_options) \<times> string list" where
  "addLiquidity L pool amount0 amount1 =
     (if isZero amount0 \<or> isZero amount1 then (Inl ZeroAmount, [])
      else
        (case getDecimals L (token0 pool) of
           Inl err \<Rightarrow> (Inl err, [token0 pool])
         | Inr dec0 \<Rightarrow>
             (case getDecimals L (token1 pool) of
                Inl err \<Rightarrow> (Inl err, [token0 pool, token1 pool])
              | Inr dec1 \<Rightarrow>
                  (bindE (toBaseUnits amount0 dec0) (\<lambda>amount0Base.
                   bindE (toBaseUnits amount1 dec1) (\<lambda>amount1Base.
                     case preflight pool amount0Base amount1Base of
                       Some err \<Rightarrow> Inl err
                     | None \<Rightarrow> addLiquidityOptions L pool amount0Base amount1Base)),
                   [token0 pool, token1 pool]))))"

section \<open>Notions used in the statements\<close>



text \<open>A page that ends the scan: the request failed, or fewer than 50 entries came.\<close>

definition lastPage :: "fetch_result \<Rightarrow> bool" where
  "lastPage r = (case r of FetchFailed \<Rightarrow> True | Page events \<Rightarrow> length events < 50)"

definition fullPage :: "fetch_result \<Rightarrow> bool" where
  "fullPage r = (case r of FetchFailed \<Rightarrow> False | Page events \<Rightarrow> 50 \<le> length events)"


section \<open>Sample data\<close>

text \<open>
  Two of the known tokens with their serialised principals (type byte 06, version 1a, the
  hash of the address, the length of the contract name and the name), and the bytes of a
  pool id.
\<close>

definition tokenA :: string where
  "tokenA = ''ST19JE8EPR84AJ8Z30B5ZB08WXTB6FC2SQHT4K9RM.mock-token''"

definition tokenB :: string where
  "tokenB = ''ST19JE8EPR84AJ8Z30B5ZB08WXTB6FC2SQHT4K9RM.mock-token-2''"

definition sampleHex :: "string \<Rightarrow> string option" where
  "sampleHex t =
     (if t = tokenA
        then Some ''0x061a532721d6c208a923e302cbf5811cee9667b059bc0a6d6f636b2d746f6b656e''
      else if t = tokenB
        then Some ''0x061a532721d6c208a923e302cbf5811cee9667b059bc0c6d6f636b2d746f6b656e2d32''
      else None)"

definition sampleIdBytes :: string where
  "sampleIdBytes = ''3b1f8a52c07d94e6a1b2c3d4e5f60718293a4b5c6d7e8f90a1b2c3d4e5f60718''"

definition sampleId :: string where
  "sampleId = ''0x'' @ sampleIdBytes"

text \<open>
  Two \<^verbatim>\<open>create-pool\<close> events for the pair of A and B with fee 500. The payload of the
  first names the tokens as (A, B) and carries the balances 0 and 5; the payload of the
  second names them as (B, A) with the balances 5 and 0.
\<close>

definition sampleEvent :: ContractEvent where
  "sampleEvent =
     \<lparr>event_type = ''smart_contract_log'', contract_id = AMM_CONTRACT_PRINCIPAL,
      topic = ''print'', value_hex = ''0x0c01''\<rparr>"

definition reversedEvent :: ContractEvent where
  "reversedEvent =
     \<lparr>event_type = ''smart_contract_log'', contract_id = AMM_CONTRACT_PRINCIPAL,
      topic = ''print'', value_hex = ''0x0c02''\<rparr>"

definition sampleLog :: create_pool_log where
  "sampleLog =
     \<lparr>log_token0 = tokenA, log_token1 = tokenB, log_fee = 500,
      log_liquidity = Some 1000, log_balance0 = Some 0, log_balance1 = Some 5\<rparr>"

definition reversedLog :: create_pool_log where
  "reversedLog =
     \<lparr>log_token0 = tokenB, log_token1 = tokenA, log_fee = 500,
      log_liquidity = Some 1000, log_balance0 = Some 5, log_balance1 = Some 0\<rparr>"

definition isPairAB :: "string \<Rightarrow> string \<Rightarrow> nat \<Rightarrow> bool" where
  "isPairAB t0 t1 f = (t0 = tokenA \<and> t1 = tokenB \<and> f = 500)"

text \<open>
  A ledger whose log holds these two events on its first page. The contract knows the
  pool of (A, B) with fee 500: \<^verbatim>\<open>pool-exists\<close> answers \<^verbatim>\<open>true\<close>, \<^verbatim>\<open>get-pool-id\<close>
  answers \<^verbatim>\<open>(ok 0x3b1f...)\<close> and \<^verbatim>\<open>get-pool-data\<close> answers with liquidity 1000 and the
  balances 0 and 5, at every place of call.
\<close>

definition oneSidedLedger :: ledger where
  "oneSidedLedger =
     \<lparr>fetchEvents = (\<lambda>offset. if offset = 0 then Page [sampleEvent, reversedEvent] else Page []),
      decodeLog = (\<lambda>h. if h = ''0x0c01'' then Some sampleLog
                        else if h = ''0x0c02'' then Some reversedLog else None),
      hexOf = sampleHex,
      poolExists = (\<lambda>s t0 t1 f. Some (BoolCV (isPairAB t0 t1 f))),
      getPoolId = (\<lambda>s t0 t1 f. if isPairAB t0 t1 f then Some (OkCV (BufferCV sampleIdBytes))
                                else Some (ErrCV (UIntCV 404))),
      getPoolData = (\<lambda>s i. if i = sampleId then Some (1000, 0, 5) else None),
      getDecimals = (\<lambda>t. Inr (Fin False 6 0))\<rparr>"


text \<open>A pool with reserves, as the contract would report it.\<close>

definition poolAB :: Pool where
  "poolAB =
     \<lparr>pool_id = sampleId, token0 = tokenA, token1 = tokenB, fee = 500,
      liquidity = 1000000, balance0 = 1000000, balance1 = 1000000\<rparr>"

text \<open>
  A log whose first page holds 50 entries and whose second page holds 12, none of them a
  contract log.
\<close>

definition otherEvent :: ContractEvent where
  "otherEvent =
     \<lparr>event_type = ''stx_asset'', contract_id = [], topic = [], value_hex = []\<rparr>"

definition twoPageLedger :: ledger where
  "twoPageLedger =
     \<lparr>fetchEvents =
        (\<lambda>offset. if offset = 0 then Page (replicate 50 otherEvent)
                   else if offset = 50 then Page (replicate 12 otherEvent)
                   else Page []),
      decodeLog = (\<lambda>h. None),
      hexOf = sampleHex,
      poolExists = (\<lambda>s t0 t1 f. None),
      getPoolId = (\<lambda>s t0 t1 f. None),
      getPoolData = (\<lambda>s i. None),
      getDecimals = (\<lambda>t. Inr (Fin False 6 0))\<rparr>"

text \<open>A pool that has not received liquidity yet.\<close>

definition emptyPool :: Pool where
  "emptyPool =
     \<lparr>pool_id = sampleId, token0 = tokenA, token1 = tokenB, fee = 500,
      liquidity = 0, balance0 = 0, balance1 = 0\<rparr>"

text \<open>A pool with liquidity whose balances are 7 and 3.\<close>

definition ratioPool :: Pool where
  "ratioPool =
     \<lparr>pool_id = sampleId, token0 = tokenA, token1 = tokenB, fee = 500,
      liquidity = 4, balance0 = 7, balance1 = 3\<rparr>"

text \<open>
  A ledger on which token A reports 400 decimals and every other token none.
  (\<^verbatim>\<open>getTokenDecimals\<close> accepts every reply that is a sequence of digits.)
\<close>

definition hugeDecimalsLedger :: ledger where
  "hugeDecimalsLedger =
     oneSidedLedger\<lparr>getDecimals :=
       (\<lambda>t. if t = tokenA then Inr (Fin False 400 0) else Inr (Fin False 0 0))\<rparr>"

section \<open>Facts about the swap estimator\<close>

lemma bigint_div_nonneg: "0 \<le> a \<Longrightarrow> 0 < b \<Longrightarrow> bigint_div a b = a div b"
  by (cases "a = 0") (simp_all add: bigint_div_def)

lemma swapTerm_eq:
  assumes "0 < deltaBaseUnits"
  shows "swapTerm pool z deltaBaseUnits = swapK pool div swapPlus pool z deltaBaseUnits"
proof -
  have "0 \<le> swapK pool" by (simp add: swapK_def)
  moreover have "0 < swapPlus pool z deltaBaseUnits"
    using assms by (simp add: swapPlus_def)
  ultimately show ?thesis
    unfolding swapTerm_def by (rule bigint_div_nonneg)
qed

lemma swapTerm_nonneg: "0 < d \<Longrightarrow> 0 \<le> swapTerm pool z d"
proof -
  assume d: "0 < d"
  have "0 \<le> swapK pool" by (simp add: swapK_def)
  moreover have "0 < swapPlus pool z d" using d by (simp add: swapPlus_def)
  ultimately have "0 \<le> swapK pool div swapPlus pool z d"
    by (simp add: pos_imp_zdiv_nonneg_iff)
  then show ?thesis using d by (simp add: swapTerm_eq)
qed

lemma swapTerm_antimono:
  assumes "0 < a" "a \<le> b"
  shows "swapTerm pool z b \<le> swapTerm pool z a"
proof -
  have k: "0 \<le> swapK pool" by (simp add: swapK_def)
  have pa: "0 < swapPlus pool z a" using assms by (simp add: swapPlus_def)
  have pab: "swapPlus pool z a \<le> swapPlus pool z b" using assms by (simp add: swapPlus_def)
  have "swapK pool div swapPlus pool z b \<le> swapK pool div swapPlus pool z a"
    using k pa pab by (rule zdiv_mono2)
  then show ?thesis using assms by (simp add: swapTerm_eq)
qed

lemma swapOutput_mono:
  assumes "0 < a" "a \<le> b"
  shows "swapOutput pool z a \<le> swapOutput pool z b"
  using swapTerm_antimono [OF assms, of pool z] by (cases z) (simp_all add: swapOutput_def)

lemma swapFees_eq: "0 \<le> out \<Longrightarrow> swapFees pool out = (out * int (fee pool)) div 10000"
  by (simp add: swapFees_def bigint_div_nonneg)

lemma swapFees_nonneg: "0 \<le> out \<Longrightarrow> 0 \<le> swapFees pool out"
  by (simp add: swapFees_eq pos_imp_zdiv_nonneg_iff)

lemma estimate_afterFees:
  assumes "0 < balance0 pool" "0 < balance1 pool" "0 < d"
  shows "estimatedToAmount (estimateSwapOutput pool z d) = afterFees pool (swapOutput pool z d)"
proof -
  have "0 < swapPlus pool z d" using assms by (simp add: swapPlus_def)
  then show ?thesis
    using assms by (simp add: estimateSwapOutput_def afterFees_def disabled_def Let_def)
qed

lemma afterFees_mono:
  assumes "o1 \<le> o2"
  shows "afterFees pool o1 \<le> afterFees pool o2"
proof (cases "o1 \<le> 0")
  case True
  then show ?thesis by (simp add: afterFees_def)
next
  case False
  then have p1: "0 < o1" and p2: "0 < o2" using assms by simp_all
  show ?thesis
  proof (cases "int (fee pool) \<le> 10000")
    case True
    have "o2 * int (fee pool) \<le> o1 * int (fee pool) + (o2 - o1) * 10000"
    proof -
      have "(o2 - o1) * int (fee pool) \<le> (o2 - o1) * 10000"
        using assms True by (intro mult_left_mono) simp_all
      then show ?thesis by (simp add: algebra_simps)
    qed
    then have "(o2 * int (fee pool)) div 10000
                 \<le> (o1 * int (fee pool) + (o2 - o1) * 10000) div 10000"
      by (rule zdiv_mono1) simp
    also have "\<dots> = (o1 * int (fee pool)) div 10000 + (o2 - o1)"
      by simp
    finally have "o1 - swapFees pool o1 \<le> o2 - swapFees pool o2"
      using p1 p2 by (simp add: swapFees_eq)
    then show ?thesis using p1 p2 by (simp add: afterFees_def)
  next
    case False
    then have big: "10000 \<le> int (fee pool)" by simp
    have "o1 * 10000 \<le> o1 * int (fee pool)"
      using p1 big by (intro mult_left_mono) simp_all
    then have "(o1 * 10000) div 10000 \<le> (o1 * int (fee pool)) div 10000"
      by (rule zdiv_mono1) simp
    then have "o1 \<le> swapFees pool o1" using p1 by (simp add: swapFees_eq)
    then have "afterFees pool o1 = 0" by (simp add: afterFees_def)
    moreover have "0 \<le> afterFees pool o2" by (simp add: afterFees_def)
    ultimately show ?thesis by simp
  qed
qed

lemma scenario_values:
  "swapK scenarioPool = 1000000000000"
  "swapPlus scenarioPool True 10000 = 1010000"
  by (simp_all add: swapK_def swapPlus_def scenarioPool_def)

text \<open>
  C1. For the pool with reserves (1000000, 1000000) and fee 500, and an input of 10000
  base units of token 0, the estimator computes \<open>k = 10^12\<close>, \<open>term = 990099\<close>, the raw
  output 9901 and the fees 495, and shows the quote 9406 with no disabling reason.
\<close>

theorem C1_scenario_quote:
  "swapK scenarioPool = 10 ^ 12
   \<and> swapTerm scenarioPool True 10000 = 990099
   \<and> swapOutput scenarioPool True 10000 = 9901
   \<and> swapFees scenarioPool 9901 = 495
   \<and> estimateSwapOutput scenarioPool True 10000
       = \<lparr>estimatedToAmount = 9406, disabledReason = None\<rparr>"
proof -
  have t: "swapTerm scenarioPool True 10000 = 990099"
    by (simp add: swapTerm_def scenario_values bigint_div_def)
  have out: "swapOutput scenarioPool True 10000 = 9901"
    by (simp add: swapOutput_def t) (simp add: scenarioPool_def)
  have f: "swapFees scenarioPool 9901 = 495"
    by (simp add: swapFees_def bigint_div_def) (simp add: scenarioPool_def)
  have q: "estimateSwapOutput scenarioPool True 10000
             = \<lparr>estimatedToAmount = 9406, disabledReason = None\<rparr>"
    by (simp add: estimateSwapOutput_def Let_def scenario_values out f)
       (simp add: scenarioPool_def)
  show ?thesis using t out f q by (simp add: scenario_values)
qed

text \<open>
  C2 as stated (strictly increasing) fails: with reserves of one million each and fee
  500, the inputs 1000001 and 1000002 give the same term 499999, the same raw output
  500001 and the same quote 475001.
\<close>

theorem C2_strict_counterexample:
  "(0::int) < 1000001 \<and> (1000001::int) < 1000002
   \<and> estimatedToAmount (estimateSwapOutput scenarioPool True 1000001) = 475001
   \<and> estimatedToAmount (estimateSwapOutput scenarioPool True 1000002) = 475001
   \<and> \<not> (estimatedToAmount (estimateSwapOutput scenarioPool True 1000001)
          < estimatedToAmount (estimateSwapOutput scenarioPool True 1000002))"
proof -
  have b: "0 < balance0 scenarioPool" "0 < balance1 scenarioPool"
    by (simp_all add: scenarioPool_def)
  have k: "swapK scenarioPool = 1000000000000" by (rule scenario_values)
  have o1: "swapOutput scenarioPool True 1000001 = 500001"
    by (simp add: swapOutput_def swapTerm_def swapPlus_def k bigint_div_def)
       (simp add: scenarioPool_def)
  have o2: "swapOutput scenarioPool True 1000002 = 500001"
    by (simp add: swapOutput_def swapTerm_def swapPlus_def k bigint_div_def)
       (simp add: scenarioPool_def)
  have f: "swapFees scenarioPool 500001 = 25000"
    by (simp add: swapFees_def bigint_div_def) (simp add: scenarioPool_def)
  have a: "afterFees scenarioPool 500001 = 475001"
    by (simp add: afterFees_def f)
  have "estimatedToAmount (estimateSwapOutput scenarioPool True 1000001) = 475001"
    using estimate_afterFees [OF b, of 1000001 True] by (simp add: o1 a)
  moreover have "estimatedToAmount (estimateSwapOutput scenarioPool True 1000002) = 475001"
    using estimate_afterFees [OF b, of 1000002 True] by (simp add: o2 a)
  ultimately show ?thesis by simp
qed

text \<open>
  C2, amended. For a pool with both reserves positive and a fixed fee, the estimate is
  monotonically non-decreasing in the input amount: for inputs \<open>0 < a \<le> b\<close> in base
  units and either direction, the amount shown for \<open>a\<close> is at most the amount shown
  for \<open>b\<close>.
\<close>

theorem C2_estimate_monotone:
  assumes "0 < balance0 pool" and "0 < balance1 pool" and "0 < a" and "a \<le> b"
  shows "estimatedToAmount (estimateSwapOutput pool z a)
           \<le> estimatedToAmount (estimateSwapOutput pool z b)"
proof -
  have b: "0 < b" using assms(3,4) by simp
  have "afterFees pool (swapOutput pool z a) \<le> afterFees pool (swapOutput pool z b)"
    by (rule afterFees_mono) (rule swapOutput_mono [OF assms(3,4)])
  then show ?thesis
    by (simp add: estimate_afterFees [OF assms(1,2,3)] estimate_afterFees [OF assms(1,2) b])
qed

theorem C2_estimate_monotone_witness:
  "0 < balance0 scenarioPool \<and> 0 < balance1 scenarioPool \<and> (0::int) < 10000
   \<and> (10000::int) \<le> 20000
   \<and> estimatedToAmount (estimateSwapOutput scenarioPool True 10000)
        \<le> estimatedToAmount (estimateSwapOutput scenarioPool True 20000)"
proof -
  have h: "0 < balance0 scenarioPool" "0 < balance1 scenarioPool"
    by (simp_all add: scenarioPool_def)
  have a: "(0::int) < 10000" "(10000::int) \<le> 20000" by simp_all
  show ?thesis
    using h a C2_estimate_monotone [OF h a, of True] by simp
qed

text \<open>
  C9. For a pool with both reserves positive and a positive input in base units, the raw
  output before fees is at most the reserve on the output side (balance 1 when the input
  is token 0, balance 0 otherwise), and so is the amount shown after fees.
\<close>

theorem C9_output_within_reserve:
  assumes "0 < balance0 pool" and "0 < balance1 pool" and "0 < d"
  shows "swapOutput pool z d \<le> int (if z then balance1 pool else balance0 pool)
         \<and> estimatedToAmount (estimateSwapOutput pool z d)
             \<le> int (if z then balance1 pool else balance0 pool)"
proof -
  let ?r = "int (if z then balance1 pool else balance0 pool)"
  have raw: "swapOutput pool z d \<le> ?r"
    using swapTerm_nonneg [OF assms(3), of pool z] by (cases z) (simp_all add: swapOutput_def)
  have "afterFees pool (swapOutput pool z d) \<le> ?r"
  proof (cases "swapOutput pool z d \<le> 0")
    case True
    then show ?thesis by (simp add: afterFees_def)
  next
    case False
    then have "0 \<le> swapFees pool (swapOutput pool z d)"
      by (intro swapFees_nonneg) simp
    then have "afterFees pool (swapOutput pool z d) \<le> swapOutput pool z d"
      using False by (simp add: afterFees_def)
    then show ?thesis using raw by simp
  qed
  then show ?thesis
    using raw by (simp add: estimate_afterFees [OF assms])
qed

theorem C9_output_within_reserve_witness:
  "0 < balance0 scenarioPool \<and> 0 < balance1 scenarioPool \<and> (0::int) < 10000
   \<and> swapOutput scenarioPool True 10000 \<le> 1000000
   \<and> estimatedToAmount (estimateSwapOutput scenarioPool True 10000) \<le> 1000000"
proof -
  have h: "0 < balance0 scenarioPool" "0 < balance1 scenarioPool"
    by (simp_all add: scenarioPool_def)
  have d: "(0::int) < 10000" by simp
  have r: "int (balance1 scenarioPool) = 1000000"
    by (simp add: scenarioPool_def)
  show ?thesis
    using h d C9_output_within_reserve [OF h d, of True] by (simp add: r)
qed

section \<open>Facts about the token order\<close>

lemma canonicalize_fixed:
  "canonicalize hx a b = (c0, c1) \<Longrightarrow> canonicalize hx c0 c1 = (c0, c1)"
  by (auto simp: canonicalize_def split: option.splits if_splits)

text \<open>
  C6. Canonicalisation is order-symmetric and idempotent on token principals, that is on
  tokens that parse and whose serialised forms differ when the tokens differ: the loop
  of \<^verbatim>\<open>getAllPools\<close> orders \<open>(a, b)\<close> and \<open>(b, a)\<close> to the same pair and leaves an
  ordered pair unchanged, and \<^verbatim>\<open>createPool\<close> builds the same call for \<open>(a, b)\<close>, for
  \<open>(b, a)\<close> and for the ordered pair, whatever the fee.
\<close>

theorem C6_canonical_order:
  assumes "hx a = Some ha" and "hx b = Some hb" and "ha = hb \<longrightarrow> a = b"
  shows "canonicalize hx a b = canonicalize hx b a
         \<and> canonicalize hx (fst (canonicalize hx a b)) (snd (canonicalize hx a b))
             = canonicalize hx a b
         \<and> createPool hx a b f = createPool hx b a f
         \<and> createPool hx (fst (canonicalize hx a b)) (snd (canonicalize hx a b)) f
             = createPool hx a b f"
proof -
  have sym: "canonicalize hx a b = canonicalize hx b a"
    using assms by (auto simp: canonicalize_def)
  have idem: "canonicalize hx (fst (canonicalize hx a b)) (snd (canonicalize hx a b))
                = canonicalize hx a b"
    using canonicalize_fixed [of hx a b "fst (canonicalize hx a b)" "snd (canonicalize hx a b)"]
    by simp
  have csym: "createPool hx a b f = createPool hx b a f"
    using assms by (auto simp: createPool_def)
  have cidem: "createPool hx (fst (canonicalize hx a b)) (snd (canonicalize hx a b)) f
                 = createPool hx a b f"
    using assms by (auto simp: createPool_def canonicalize_def)
  show ?thesis using sym idem csym cidem by simp
qed

lemma tokenA_neq_tokenB: "tokenA \<noteq> tokenB"
  by (simp add: tokenA_def tokenB_def)

lemma sampleHex_values:
  "sampleHex tokenA = Some ''0x061a532721d6c208a923e302cbf5811cee9667b059bc0a6d6f636b2d746f6b656e''"
  "sampleHex tokenB = Some ''0x061a532721d6c208a923e302cbf5811cee9667b059bc0c6d6f636b2d746f6b656e2d32''"
  using tokenA_neq_tokenB by (simp_all add: sampleHex_def)

text \<open>The two sample tokens, given in descending order, come out in ascending order.\<close>

theorem C6_canonical_order_witness:
  "canonicalize sampleHex tokenB tokenA = (tokenA, tokenB)
   \<and> canonicalize sampleHex tokenB tokenA = canonicalize sampleHex tokenA tokenB
   \<and> canonicalize sampleHex tokenA tokenB = (tokenA, tokenB)
   \<and> createPool sampleHex tokenB tokenA 500 = createPool sampleHex tokenA tokenB 500"
proof -
  have ne: "''0x061a532721d6c208a923e302cbf5811cee9667b059bc0c6d6f636b2d746f6b656e2d32''
            = ''0x061a532721d6c208a923e302cbf5811cee9667b059bc0a6d6f636b2d746f6b656e''
            \<longrightarrow> tokenB = tokenA"
    by simp
  have c: "canonicalize sampleHex tokenB tokenA = (tokenA, tokenB)"
    by (simp add: canonicalize_def sampleHex_values)
  note t = C6_canonical_order [OF sampleHex_values(2) sampleHex_values(1) ne, of 500]
  from t have s: "canonicalize sampleHex tokenB tokenA = canonicalize sampleHex tokenA tokenB"
    by (rule conjunct1)
  from t have p: "createPool sampleHex tokenB tokenA 500 = createPool sampleHex tokenA tokenB 500"
    by blast
  have c2: "canonicalize sampleHex tokenA tokenB = (tokenA, tokenB)"
    unfolding s [symmetric] by (rule c)
  show ?thesis
    by (intro conjI) (rule c, rule s, rule c2, rule p)
qed

section \<open>Facts about adding liquidity\<close>

lemma floorSqrt_bounds: "(floorSqrt n)\<^sup>2 \<le> n \<and> n < (floorSqrt n + 1)\<^sup>2"
proof (induction n rule: floorSqrt.induct)
  case (1 n)
  show ?case
  proof (cases "n < 2")
    case True
    then have "floorSqrt n = n" by (subst floorSqrt.simps) simp
    moreover have "n = 0 \<or> n = 1" using True by auto
    ultimately show ?thesis by (auto simp: power2_eq_square)
  next
    case False
    define s where "s = floorSqrt (n div 4)"
    have ih: "s\<^sup>2 \<le> n div 4" "n div 4 < (s + 1)\<^sup>2"
      using 1 False by (simp_all add: s_def)
    have lo: "(2 * s)\<^sup>2 \<le> n"
    proof -
      have "(2 * s)\<^sup>2 = 4 * s\<^sup>2" by (simp add: power2_eq_square)
      also have "\<dots> \<le> 4 * (n div 4)" using ih(1) by simp
      also have "\<dots> \<le> n" by simp
      finally show ?thesis .
    qed
    have hi: "n < (2 * s + 2)\<^sup>2"
    proof -
      have "n < 4 * (n div 4 + 1)" by presburger
      also have "\<dots> \<le> 4 * (s + 1)\<^sup>2" using ih(2) by simp
      also have "\<dots> = (2 * s + 2)\<^sup>2" by (simp add: power2_eq_square algebra_simps)
      finally show ?thesis .
    qed
    have unfold: "floorSqrt n = (if (2 * s + 1) * (2 * s + 1) \<le> n then 2 * s + 1 else 2 * s)"
      using False by (subst floorSqrt.simps) (simp add: s_def Let_def)
    show ?thesis
    proof (cases "(2 * s + 1) * (2 * s + 1) \<le> n")
      case True
      then have "floorSqrt n = 2 * s + 1" using unfold by simp
      then show ?thesis using True hi by (simp add: power2_eq_square)
    next
      case False
      then have "floorSqrt n = 2 * s" using unfold by simp
      then show ?thesis using False lo by (simp add: power2_eq_square)
    qed
  qed
qed

lemma floorSqrt_floor: "int (floorSqrt n) = \<lfloor>sqrt (real n)\<rfloor>"
proof -
  have lo: "real (floorSqrt n) \<le> sqrt (real n)"
  proof (rule real_le_rsqrt)
    have "real ((floorSqrt n)\<^sup>2) \<le> real n"
      using floorSqrt_bounds [of n] by (simp del: of_nat_power)
    then show "(real (floorSqrt n))\<^sup>2 \<le> real n" by simp
  qed
  have hi: "sqrt (real n) < real (floorSqrt n) + 1"
  proof (rule real_less_lsqrt)
    show "0 \<le> real (floorSqrt n) + 1" by simp
    have "real n < real ((floorSqrt n + 1)\<^sup>2)"
      using floorSqrt_bounds [of n] by (simp del: of_nat_power of_nat_add)
    then show "real n < (real (floorSqrt n) + 1)\<^sup>2" by (simp add: add.commute)
  qed
  have "\<lfloor>sqrt (real n)\<rfloor> = int (floorSqrt n)"
    by (rule floor_unique) (use lo hi in simp_all)
  then show ?thesis by simp
qed

text \<open>
  The integer square root is the one of the reals, rounded down; \<open>dsqrt\<close> rounds with
  it.
\<close>

lemma bitlen_numeral:
  "bitlen 0 = 0"
  "bitlen 1 = 1"
  "bitlen (Suc 0) = 1"
  "bitlen (numeral (Num.Bit0 k)) = bitlen (numeral k) + 1"
  "bitlen (numeral (Num.Bit1 k)) = bitlen (numeral k) + 1"
proof -
  show "bitlen 0 = 0" by (subst bitlen.simps) simp
  have one: "bitlen (Suc 0) = Suc 0"
    by (subst bitlen.simps) (simp add: bitlen.simps [of 0])
  then show "bitlen 1 = 1" "bitlen (Suc 0) = 1" by simp_all
  show "bitlen (numeral (Num.Bit0 k)) = bitlen (numeral k) + 1"
    by (subst bitlen.simps) simp
  have "numeral (Num.Bit1 k) div (2::nat) = numeral k"
    by (simp add: numeral_Bit1_div_2)
  then show "bitlen (numeral (Num.Bit1 k)) = bitlen (numeral k) + 1"
    by (subst bitlen.simps) simp
qed

lemmas double_eval =
  preflight_def toDouble_def roundSigned_def roundPos_def overflows_def floorLog2_def
  roundHalfEven_def dneg_def dmul_def ddiv_def dsqrt_def dfloor_def dle_def dless_def
  scaled_def MINIMUM_LIQUIDITY_def bitlen_numeral Let_def

lemma floorSqrt_values:
  "floorSqrt 250682857955289505667072655360000 = 15832967439974400"
  "floorSqrt 309485009821345068724781056000000 = 17592186044416000"
  "floorSqrt 310104289325997580207299342893056 = 17609778230460416"
  by (simp_all add: floorSqrt.simps)

lemma emptyPool_liquidity: "liquidity emptyPool = 0"
  by (simp add: emptyPool_def)

text \<open>
  The scenario of the specification: amounts of 900 and 900 give the root 900 and are
  rejected. So are 1000 and 1000, whose root is the threshold itself, while 1001 and
  1001 pass.
\<close>

lemma preflight_scenario:
  "preflight emptyPool 900 900 = Some DepositTooSmall"
  "preflight emptyPool 1000 1000 = Some DepositTooSmall"
  "preflight emptyPool 1001 1001 = None"
  by (simp_all add: emptyPool_liquidity double_eval floorSqrt_values)

text \<open>
  The ratio branch computes with doubles as well: with the balances 7 and 3 and 35 base
  units of token 0 the quotient \<open>35 / (7 / 3)\<close> is just below 15, so 14 base units of
  token 1 are enough and 13 are not.
\<close>

lemma preflight_ratio:
  "preflight ratioPool 35 14 = None"
  "preflight ratioPool 35 13 = Some (RatioTooLow (DFin 14 0))"
  by (simp_all add: ratioPool_def double_eval)

lemmas toBaseUnits_eval =
  toBaseUnits_def isFinite_def isNegative_def isInteger_def toNat_def numberToString_def
  positiveToString_def padEnd_def orElse_def parseBigInt_def isDigit_def digitsValue_def
  digitValue_def digitChar_def Let_def

lemma replicate_numeral: "replicate (numeral k) x = x # replicate (pred_numeral k) x"
  by (simp add: numeral_eq_Suc)

lemma hugeDecimals_amounts:
  "toBaseUnits (Fin False 1 0) (Fin False 400 0) = Inr (10 ^ 400)"
  "toBaseUnits (Fin False 5 (- 1)) (Fin False 0 0) = Inr 0"
  by (simp_all add: toBaseUnits_eval replicate_numeral)

lemma tokenA_neq_tokenB': "tokenB \<noteq> tokenA"
  by (simp add: tokenA_def tokenB_def)

lemma hugeDecimals_lookup:
  "getDecimals hugeDecimalsLedger tokenA = Inr (Fin False 400 0)"
  "getDecimals hugeDecimalsLedger tokenB = Inr (Fin False 0 0)"
  "hexOf hugeDecimalsLedger = sampleHex"
  using tokenA_neq_tokenB' by (simp_all add: hugeDecimalsLedger_def oneSidedLedger_def)

lemma infinite_product:
  "toDouble (10 ^ 400) = DInf False"
  "dmul (DInf False) (toDouble 0) = DNaN"
  "preflight emptyPool (10 ^ 400) 0 = None"
  by (simp_all add: emptyPool_liquidity double_eval)

text \<open>
  C7 at a deposit that the check lets through although the root of the product is 0.
  Token A reports 400 decimals and token B none. For the amounts 1 and 0.5 the amounts
  in base units are \<open>10^400\<close> and 0, so the square root of their product, rounded down,
  is 0 and not greater than 1000. But \<^verbatim>\<open>Number(amount0Base)\<close> is infinite, infinity
  times 0 is \<^verbatim>\<open>NaN\<close>, and \<^verbatim>\<open>NaN <= 1000\<close> is false: the pre-flight check throws
  nothing. The call fails only afterwards, when \<^verbatim>\<open>uintCV\<close> refuses \<open>10^400\<close>.
\<close>

theorem C7_infinite_product:
  "liquidity emptyPool = 0
   \<and> toBaseUnits (Fin False 1 0) (Fin False 400 0) = Inr (10 ^ 400)
   \<and> toBaseUnits (Fin False 5 (- 1)) (Fin False 0 0) = Inr 0
   \<and> \<lfloor>sqrt (real_of_int (10 ^ 400 * 0))\<rfloor> \<le> int MINIMUM_LIQUIDITY
   \<and> toDouble (10 ^ 400) = DInf False
   \<and> dmul (toDouble (10 ^ 400)) (toDouble 0) = DNaN
   \<and> preflight emptyPool (10 ^ 400) 0 = None
   \<and> addLiquidity hugeDecimalsLedger emptyPool (Fin False 1 0) (Fin False 5 (- 1))
        = (Inl UIntOutOfRange, [tokenA, tokenB])"
proof -
  have t: "token0 emptyPool = tokenA" "token1 emptyPool = tokenB" "fee emptyPool = 500"
    by (simp_all add: emptyPool_def)
  have z: "\<not> isZero (Fin False 1 0)" "\<not> isZero (Fin False 5 (- 1))"
    by (simp_all add: isZero_def)
  have r: "\<lfloor>sqrt (real_of_int (10 ^ 400 * 0))\<rfloor> \<le> int MINIMUM_LIQUIDITY"
    by (simp add: MINIMUM_LIQUIDITY_def)
  have h: "sampleHex tokenA \<noteq> None" "sampleHex tokenB \<noteq> None"
    using tokenA_neq_tokenB' by (simp_all add: sampleHex_def)
  have o: "addLiquidityOptions hugeDecimalsLedger emptyPool (10 ^ 400) 0 = Inl UIntOutOfRange"
    by (simp add: addLiquidityOptions_def principalCV_def bindE_def uintCVNumber_def
        uintCV_def t h hugeDecimals_lookup(3))
  have a: "addLiquidity hugeDecimalsLedger emptyPool (Fin False 1 0) (Fin False 5 (- 1))
             = (Inl UIntOutOfRange, [tokenA, tokenB])"
    using z hugeDecimals_amounts infinite_product(3) o
    by (simp add: addLiquidity_def t hugeDecimals_lookup(1,2) bindE_def)
  show ?thesis
    using emptyPool_liquidity hugeDecimals_amounts r infinite_product a
    by (simp only: simp_thms)
qed

text \<open>
  The deposit passes every guard before the pre-flight check: neither amount is zero,
  both are finite and not negative, and both decimals are non-negative integers.
\<close>

theorem C7_infinite_product_witness:
  "\<not> (isZero (Fin False 1 0) \<or> isZero (Fin False 5 (- 1)))
   \<and> isFinite (Fin False 1 0) \<and> \<not> isNegative (Fin False 1 0)
   \<and> isFinite (Fin False 5 (- 1)) \<and> \<not> isNegative (Fin False 5 (- 1))
   \<and> isInteger (Fin False 400 0) \<and> \<not> isNegative (Fin False 400 0)
   \<and> isInteger (Fin False 0 0) \<and> \<not> isNegative (Fin False 0 0)
   \<and> preflight emptyPool (10 ^ 400) 0 \<noteq> Some DepositTooSmall
   \<and> fst (addLiquidity hugeDecimalsLedger emptyPool (Fin False 1 0) (Fin False 5 (- 1)))
        \<noteq> Inl DepositTooSmall"
proof -
  have g: "\<not> (isZero (Fin False 1 0) \<or> isZero (Fin False 5 (- 1)))"
    "isFinite (Fin False 1 0)" "\<not> isNegative (Fin False 1 0)"
    "isFinite (Fin False 5 (- 1))" "\<not> isNegative (Fin False 5 (- 1))"
    "isInteger (Fin False 400 0)" "\<not> isNegative (Fin False 400 0)"
    "isInteger (Fin False 0 0)" "\<not> isNegative (Fin False 0 0)"
    by (simp_all add: isZero_def isFinite_def isNegative_def isInteger_def)
  have p: "preflight emptyPool (10 ^ 400) 0 = None"
    using C7_infinite_product by (elim conjE)
  have a: "addLiquidity hugeDecimalsLedger emptyPool (Fin False 1 0) (Fin False 5 (- 1))
             = (Inl UIntOutOfRange, [tokenA, tokenB])"
    using C7_infinite_product by (elim conjE)
  show ?thesis using g p a by simp
qed

text \<open>
  C10. When one of the two amounts is zero, \<^verbatim>\<open>addLiquidity\<close> rejects with the
  zero-amount error and has looked up no decimals; it returns no call options.
\<close>

theorem C10_zero_amount:
  assumes "isZero amount0 \<or> isZero amount1"
  shows "addLiquidity L pool amount0 amount1 = (Inl ZeroAmount, [])"
  using assms by (simp add: addLiquidity_def)

text \<open>A zero first amount with any ledger and pool.\<close>

theorem C10_zero_amount_witness:
  "(isZero (Fin False 0 0) \<or> isZero (Fin False 5 0))
   \<and> addLiquidity oneSidedLedger poolAB (Fin False 0 0) (Fin False 5 0) = (Inl ZeroAmount, [])"
proof -
  have z: "isZero (Fin False 0 0) \<or> isZero (Fin False 5 0)" by (simp add: isZero_def)
  show ?thesis using z C10_zero_amount [OF z, of oneSidedLedger poolAB] by simp
qed

section \<open>Facts about the conversion to base units\<close>

text \<open>
  C5 at two amounts that \<^verbatim>\<open>toString\<close> prints in exponent notation. The number
  \<^verbatim>\<open>1e-7\<close> with 6 decimals is a valid input whose value truncated to 6 digits is 0, but
  \<^verbatim>\<open>BigInt("1e-7")\<close> raises \<^verbatim>\<open>SyntaxError\<close>. The number \<^verbatim>\<open>1.5e-7\<close> with 1 decimal
  also truncates to 0, but the text after the point is \<^verbatim>\<open>5e-7\<close>, its first character
  is taken as the fraction, and the result is 15.
\<close>

theorem C5_exponent_notation:
  "numberToString (Fin False 1 (- 7)) = ''1e-7''
   \<and> toBaseUnits (Fin False 1 (- 7)) (Fin False 6 0) = Inl SyntaxError
   \<and> \<lfloor>valueOf (Fin False 1 (- 7)) * 10 ^ 6\<rfloor> = 0
   \<and> numberToString (Fin False 15 (- 8)) = ''1.5e-7''
   \<and> toBaseUnits (Fin False 15 (- 8)) (Fin False 1 0) = Inr 15
   \<and> \<lfloor>valueOf (Fin False 15 (- 8)) * 10 ^ 1\<rfloor> = 0"
proof -
  have s1: "numberToString (Fin False 1 (- 7)) = ''1e-7''"
    by (simp add: toBaseUnits_eval)
  have t1: "toBaseUnits (Fin False 1 (- 7)) (Fin False 6 0) = Inl SyntaxError"
    by (simp add: toBaseUnits_eval)
  have v1: "\<lfloor>valueOf (Fin False 1 (- 7)) * 10 ^ 6\<rfloor> = 0"
    by (simp add: valueOf_def power_int_minus)
  have s2: "numberToString (Fin False 15 (- 8)) = ''1.5e-7''"
    by (simp add: toBaseUnits_eval)
  have t2: "toBaseUnits (Fin False 15 (- 8)) (Fin False 1 0) = Inr 15"
    by (simp add: toBaseUnits_eval)
  have v2: "\<lfloor>valueOf (Fin False 15 (- 8)) * 10 ^ 1\<rfloor> = 0"
    by (simp add: valueOf_def power_int_minus)
  show ?thesis using s1 t1 v1 s2 t2 v2 by simp
qed

text \<open>
  Both inputs pass the two guards of \<^verbatim>\<open>toBaseUnits\<close>: the amounts are finite and not
  negative, the decimals are non-negative integers.
\<close>

theorem C5_exponent_notation_witness:
  "isFinite (Fin False 1 (- 7)) \<and> \<not> isNegative (Fin False 1 (- 7))
   \<and> isInteger (Fin False 6 0) \<and> \<not> isNegative (Fin False 6 0)
   \<and> toBaseUnits (Fin False 1 (- 7)) (Fin False 6 0) = Inl SyntaxError
   \<and> isFinite (Fin False 15 (- 8)) \<and> \<not> isNegative (Fin False 15 (- 8))
   \<and> isInteger (Fin False 1 0) \<and> \<not> isNegative (Fin False 1 0)
   \<and> toBaseUnits (Fin False 15 (- 8)) (Fin False 1 0) = Inr 15"
  using C5_exponent_notation by (simp add: isFinite_def isNegative_def isInteger_def)

lemma toBaseUnits_rejects_amount:
  "\<not> isFinite amount \<or> isNegative amount \<Longrightarrow> toBaseUnits amount decimals = Inl InvalidAmount"
  by (auto simp: toBaseUnits_def)

lemma toBaseUnits_rejects_decimals:
  "isFinite amount \<Longrightarrow> \<not> isNegative amount \<Longrightarrow> \<not> isInteger decimals \<or> isNegative decimals
   \<Longrightarrow> toBaseUnits amount decimals = Inl InvalidDecimals"
  by (auto simp: toBaseUnits_def)

section \<open>Facts about the event scan\<close>

lemma scanEvents_requests:
  assumes "\<And>i. j \<le> i \<Longrightarrow> i < n \<Longrightarrow> fullPage (fetchEvents L (50 * i))"
    and "lastPage (fetchEvents L (50 * n))"
    and "j \<le> n" and "n - j < fuel"
  shows "\<exists>pools'. scanEvents L fuel (50 * j) pools reqs
           = Some (pools', reqs @ map (\<lambda>i. 50 * i) [j..<Suc n])"
  using assms
proof (induction fuel arbitrary: j pools reqs)
  case 0
  then show ?case by simp
next
  case (Suc fuel)
  show ?case
  proof (cases "j = n")
    case True
    have "[j..<Suc n] = [n]" using True by simp
    then show ?thesis
      using Suc.prems(2) True
      by (auto simp: lastPage_def Let_def split: fetch_result.splits)
  next
    case False
    then have lt: "j < n" using Suc.prems(3) by simp
    then have "fullPage (fetchEvents L (50 * j))" using Suc.prems(1) by simp
    then obtain events where ev: "fetchEvents L (50 * j) = Page events" "50 \<le> length events"
      by (auto simp: fullPage_def split: fetch_result.splits)
    have full': "\<And>i. Suc j \<le> i \<Longrightarrow> i < n \<Longrightarrow> fullPage (fetchEvents L (50 * i))"
      using Suc.prems(1) by simp
    have "n - Suc j < fuel" using Suc.prems(4) lt by simp
    from Suc.IH [OF full' Suc.prems(2) _ this] lt
    obtain pools' where
      "scanEvents L fuel (50 * Suc j)
         (pools @ List.map_filter (processEvent L (50 * j))
                    (List.enumerate 0 (filter isPoolLog events))) (reqs @ [50 * j])
       = Some (pools', (reqs @ [50 * j]) @ map (\<lambda>i. 50 * i) [Suc j..<Suc n])"
      by (metis Suc_leI)
    moreover have "[j..<Suc n] = j # [Suc j..<Suc n]"
      using lt by (simp add: upt_conv_Cons)
    moreover have "50 * j + 50 = 50 * Suc j" by simp
    ultimately show ?thesis
      using ev by (simp add: Let_def del: upt_Suc mult_Suc_right)
  qed
qed

text \<open>
  C8. The scan requests pages of 50 at the offsets 0, 50, 100 and so on, one after the
  other, and stops at the first page that fails or has fewer than 50 entries: when the
  pages at the offsets \<open>50 * i\<close> for \<open>i < n\<close> are full and the page at \<open>50 * n\<close> is a
  last page, the requests are exactly the offsets \<open>50 * i\<close> for \<open>i \<le> n\<close>.
\<close>

theorem C8_pagination:
  assumes "\<forall>i<n. fullPage (fetchEvents L (50 * i))"
    and "lastPage (fetchEvents L (50 * n))"
    and "n < fuel"
  shows "\<exists>pools. scanEvents L fuel 0 [] [] = Some (pools, map (\<lambda>i. 50 * i) [0..<Suc n])"
proof -
  have "\<exists>pools'. scanEvents L fuel (50 * 0) [] []
          = Some (pools', [] @ map (\<lambda>i. 50 * i) [0..<Suc n])"
    by (rule scanEvents_requests) (use assms in simp_all)
  then show ?thesis by simp
qed

text \<open>
  A first page of 50 entries and a second page of 12: two requests, at the offsets 0
  and 50.
\<close>

theorem C8_pagination_witness:
  "fetchEvents twoPageLedger 0 = Page (replicate 50 otherEvent)
   \<and> fetchEvents twoPageLedger 50 = Page (replicate 12 otherEvent)
   \<and> map_option snd (scanEvents twoPageLedger 2 0 [] []) = Some [0, 50]"
proof -
  have p0: "fetchEvents twoPageLedger 0 = Page (replicate 50 otherEvent)"
    by (simp add: twoPageLedger_def)
  have p1: "fetchEvents twoPageLedger 50 = Page (replicate 12 otherEvent)"
    by (simp add: twoPageLedger_def)
  have full: "\<forall>i<1. fullPage (fetchEvents twoPageLedger (50 * i))"
    by (simp add: p0 fullPage_def)
  have last: "lastPage (fetchEvents twoPageLedger (50 * 1))"
    by (simp add: p1 lastPage_def)
  have "\<exists>pools. scanEvents twoPageLedger 2 0 [] []
          = Some (pools, map (\<lambda>i. 50 * i) [0..<Suc 1])"
    by (rule C8_pagination [OF full last]) simp
  moreover have "map (\<lambda>i. 50 * i) [0..<Suc 1] = [0, 50::nat]"
    by (simp add: upt_rec)
  ultimately have "map_option snd (scanEvents twoPageLedger 2 0 [] []) = Some [0, 50]"
    by auto
  then show ?thesis using p0 p1 by simp
qed

section \<open>Facts about the replies of the contract\<close>

text \<open>
  The type that \<^verbatim>\<open>cvToJSON\<close> gives a value is never one of the six tags that the code
  compares it with: it is one of the fixed words \<^verbatim>\<open>int\<close>, \<^verbatim>\<open>uint\<close>, \<^verbatim>\<open>bool\<close>,
  \<^verbatim>\<open>principal\<close>, or it begins with a parenthesis.
\<close>

lemma cvTypeString_tags:
  "cvTypeString r \<noteq> ''response-ok''"
  "cvTypeString r \<noteq> ''responseOk''"
  "cvTypeString r \<noteq> ''optional-some''"
  "cvTypeString r \<noteq> ''optionalSome''"
  "cvTypeString r \<noteq> ''buffer''"
  "cvTypeString r \<noteq> ''buff''"
  by (cases r; simp)+

lemma hasType_cvToJSON: "hasType (cvToJSON r) tag \<longleftrightarrow> cvTypeString r = tag"
  by (cases r) (simp_all add: hasType_def getProp_def typed_def typedResponse_def)

lemma unwrap_cvToJSON: "unwrapSome (unwrapOk (cvToJSON r)) = cvToJSON r"
  by (simp add: unwrapOk_def unwrapSome_def hasType_cvToJSON cvTypeString_tags)

text \<open>
  So no reply to \<^verbatim>\<open>get-pool-id\<close> passes the buffer test, the chain of read-only calls
  never yields a pool, and neither does \<^verbatim>\<open>resolvePoolByPair\<close> or a probe of the direct
  sweep.
\<close>

lemma poolIdOfReply_None: "poolIdOfReply reply = None"
  by (simp add: poolIdOfReply_def unwrap_cvToJSON hasType_cvToJSON cvTypeString_tags)

lemma readPool_None: "readPool L s t0 t1 f = None"
  by (simp add: readPool_def poolIdOfReply_None split: option.splits)

lemma resolvePoolByPair_None: "resolvePoolByPair L s a b f = None"
  by (simp add: resolvePoolByPair_def readPool_None split: option.splits)

lemma probe_None: "probe L ip = None"
  by (cases ip) (simp add: probe_def readPool_None split: option.splits)

lemma map_filter_None: "(\<And>x. f x = None) \<Longrightarrow> List.map_filter f xs = []"
  by (induction xs) simp_all

lemma getAllPoolsDirect_Nil: "getAllPoolsDirect L = []"
  unfolding getAllPoolsDirect_def by (rule map_filter_None) (rule probe_None)


lemma mergeDirect_id: "mergeDirect L pools = pools"
  by (simp add: mergeDirect_def getAllPoolsDirect_Nil directByPair_def)

lemma fixupOne_snd: "fixupOne L = snd"
proof (rule ext)
  fix ip :: "nat \<times> Pool"
  show "fixupOne L ip = snd ip"
    by (cases ip) (simp add: fixupOne_def resolvePoolByPair_None)
qed

lemma fixup_id: "fixup L ps = ps"
proof -
  have "fixup L ps = map snd (List.enumerate 0 ps)"
    by (simp add: fixup_def fixupOne_snd)
  then show ?thesis by simp
qed

lemma dedup_Nil: "dedup [] = []"
  by (simp add: dedup_def)

text \<open>The result of a discovery run is the deduplicated list of the scanned pools.\<close>

lemma getAllPools_dedup:
  "getAllPools L fuel = map_option (\<lambda>r. dedup (fst r)) (scanEvents L fuel 0 [] [])"
  by (auto simp: getAllPools_def getAllPoolsDirect_Nil mergeDirect_id fixup_id dedup_Nil
      split: option.splits)

section \<open>Facts about the discovery run\<close>










subsection \<open>Deduplication\<close>




lemma dedupStep_keys: "fst ` set (dedupStep m p) \<subseteq> insert (poolKey p) (fst ` set m)"
  by (auto simp: dedupStep_def dom_update split: option.splits)

lemma dedup_foldl_keys:
  "fst ` set (foldl dedupStep m ps) \<subseteq> fst ` set m \<union> poolKey ` set ps"
proof (induction ps arbitrary: m)
  case Nil
  show ?case by simp
next
  case (Cons p ps)
  show ?case
    using Cons.IH [of "dedupStep m p"] dedupStep_keys [of m p] by auto
qed







subsection \<open>Keys\<close>




text \<open>
  The run returns whenever the log ends: when the pages at the offsets \<open>50 * i\<close> for
  \<open>i < n\<close> are full, the page at \<open>50 * n\<close> is a last page and the fuel exceeds \<open>n\<close>.
\<close>

lemma getAllPools_returns:
  assumes "\<forall>i<n. fullPage (fetchEvents L (50 * i))"
    and "lastPage (fetchEvents L (50 * n))"
    and "n < fuel"
  shows "\<exists>out. getAllPools L fuel = Some out"
proof -
  have "\<exists>pools'. scanEvents L fuel (50 * 0) [] []
          = Some (pools', [] @ map (\<lambda>i. 50 * i) [0..<Suc n])"
    by (rule scanEvents_requests) (use assms in simp_all)
  then show ?thesis by (auto simp: getAllPools_dedup)
qed


section \<open>The discovery run on the sample ledger\<close>












end
